theory Spec2Isabelle
  imports Complex_Main "HOL-Library.Sublist" "HOL-Library.AList"
begin

section \<open>The AI analysis adapter: \<open>analyzeFoodWaste\<close>\<close>

text \<open>
  The development embeds the single exported function of the vision module,
  \<^verbatim>\<open>analyzeFoodWaste(imagePath)\<close>, stage by stage: the credential check, the file read,
  model discovery, the fallback loop over candidate models, the tolerant JSON extraction,
  the normalisation of the parsed value and the classification of every failure in the
  outer \<^verbatim>\<open>catch\<close>.

  What the JavaScript runtime and the network decide is a field of the environment record
  \<open>env\<close>: the process environment variable, the file system, the two remote calls, and the
  built-ins \<^verbatim>\<open>JSON.parse\<close>, the addition of two numbers, number-to-string conversion and
  the wording of the engine's \<^verbatim>\<open>TypeError\<close>s. Everything the function itself decides is computed by the definitions
  below. Console output, the file read and the network calls are recorded, in order, in a
  list of events that every stage returns next to its result.
\<close>

subsection \<open>JavaScript values\<close>

text \<open>
  A JavaScript number is an IEEE double: a finite value, which is a rational (\<open>Finite 0\<close> is
  \<^verbatim>\<open>+0\<close>), or \<^verbatim>\<open>-0\<close>, an infinity or \<^verbatim>\<open>NaN\<close>. Arithmetic on numbers is the engine's: the
  addition of two numbers, which rounds and overflows, is the field \<open>numberAdd\<close> of the
  environment below, and no definition of this theory adds two numbers by itself.
\<close>

datatype number =
    Finite rat
  | NegZero
  | PosInfinity
  | NegInfinity
  | NaN

text \<open>The numbers that are falsy: \<^verbatim>\<open>+0\<close>, \<^verbatim>\<open>-0\<close> and \<^verbatim>\<open>NaN\<close>.\<close>

fun falsyNumber :: "number \<Rightarrow> bool" where
  "falsyNumber (Finite r) = (r = 0)"
| "falsyNumber NegZero = True"
| "falsyNumber NaN = True"
| "falsyNumber n = False"

text \<open>
  A parsed JSON value. An object is the list of its own properties; \<open>map_of\<close> reads it.
  \<^verbatim>\<open>undefined\<close> is never a JSON value: a property read returns a \<open>json option\<close>, with
  \<open>None\<close> for \<^verbatim>\<open>undefined\<close>.
\<close>

datatype json =
    JNull
  | JBool bool
  | JNum number
  | JStr string
  | JArr "json list"
  | JObj "(string \<times> json) list"

text \<open>
  The run-time type errors this function can provoke, by cause. The message text of each
  is the engine's, see \<open>typeErrorMessage\<close> in \<open>env\<close> and \<open>v8Message\<close>.
\<close>

datatype type_error =
    ReadOfNull string
  | ReadOfUndefined string
  | WriteOfNull string
  | CreateOn json string
  | NotAFunction string
  | NoPrimitive

text \<open>
  A thrown value: an \<^verbatim>\<open>Error\<close> with its \<^verbatim>\<open>message\<close> property (\<open>None\<close> when the thrown
  value has no message), or a \<^verbatim>\<open>TypeError\<close> raised by the engine. What is thrown is always
  an object: \<^verbatim>\<open>fetch\<close>, the file system and the client library throw nothing else.
\<close>

datatype thrown =
    Error "string option"
  | TypeError type_error

subsection \<open>String operations of the runtime\<close>

text \<open>
  A string is a list of characters, and the operations below treat every character
  alike. \<^verbatim>\<open>String.prototype.includes\<close>: the argument occurs as a contiguous substring.
\<close>

fun str_includes :: "string \<Rightarrow> string \<Rightarrow> bool" where
  "str_includes [] sub = (sub = [])"
| "str_includes (c # cs) sub = (prefix sub (c # cs) \<or> str_includes cs sub)"

text \<open>\<^verbatim>\<open>String.prototype.endsWith\<close>.\<close>

definition endsWith :: "string \<Rightarrow> string \<Rightarrow> bool" where
  "endsWith s suf = suffix suf s"

text \<open>\<^verbatim>\<open>String.prototype.toLowerCase\<close> on the ASCII letters.\<close>

definition lowerChar :: "char \<Rightarrow> char" where
  "lowerChar c =
     (let n = of_char c :: nat in if 65 \<le> n \<and> n \<le> 90 then char_of (n + 32) else c)"

definition toLowerCase :: "string \<Rightarrow> string" where
  "toLowerCase s = map lowerChar s"

text \<open>\<^verbatim>\<open>Array.prototype.join\<close> on an array of strings.\<close>

fun join :: "string \<Rightarrow> string list \<Rightarrow> string" where
  "join sep [] = []"
| "join sep [x] = x"
| "join sep (x # y # ys) = x @ sep @ join sep (y # ys)"

text \<open>
  \<^verbatim>\<open>s.replace(pat, rep)\<close> with a string pattern: the first occurrence of \<open>pat\<close> is replaced,
  the rest of \<open>s\<close> is kept.
\<close>

fun replaceFirst :: "string \<Rightarrow> string \<Rightarrow> string \<Rightarrow> string" where
  "replaceFirst pat rep [] = (if pat = [] then rep else [])"
| "replaceFirst pat rep (c # cs) =
     (if prefix pat (c # cs) then rep @ drop (length pat) (c # cs)
      else c # replaceFirst pat rep cs)"

subsection \<open>The regular expression of the extraction stage\<close>

text \<open>
  \<^verbatim>\<open>content.match(/\{[\s\S]*\}/)\<close> (line 148). The pattern is a sequence of atoms: a literal
  character, or \<^verbatim>\<open>[\s\S]*\<close>, which matches any run of characters, greedily. \<open>matchHere\<close>
  is the backtracking matcher anchored at the start of the text: the star first consumes a
  character and goes on, and gives it back only when the rest of the pattern fails.
  \<open>matchFirst\<close> is \<^verbatim>\<open>String.prototype.match\<close> without the \<^verbatim>\<open>g\<close> flag: the match at the
  leftmost position where there is one; its result is \<^verbatim>\<open>jsonMatch[0]\<close>, or \<open>None\<close> for
  \<^verbatim>\<open>null\<close>.
\<close>

datatype regex_atom = Lit char | AnyStar

fun matchHere :: "regex_atom list \<Rightarrow> string \<Rightarrow> string option" where
  "matchHere [] s = Some []"
| "matchHere (Lit c # r) [] = None"
| "matchHere (Lit c # r) (x # xs) =
     (if x = c then map_option ((#) x) (matchHere r xs) else None)"
| "matchHere (AnyStar # r) [] = matchHere r []"
| "matchHere (AnyStar # r) (x # xs) =
     (case matchHere (AnyStar # r) xs of
        Some m \<Rightarrow> Some (x # m)
      | None \<Rightarrow> matchHere r (x # xs))"

fun matchFirst :: "regex_atom list \<Rightarrow> string \<Rightarrow> string option" where
  "matchFirst p [] = matchHere p []"
| "matchFirst p (x # xs) =
     (case matchHere p (x # xs) of
        Some m \<Rightarrow> Some m
      | None \<Rightarrow> matchFirst p xs)"

definition jsonRegex :: "regex_atom list" where
  "jsonRegex = [Lit CHR ''{'', AnyStar, Lit CHR ''}'']"

text \<open>
  Lines 146 to 153, the body of the inner \<^verbatim>\<open>try\<close>: parse the matched span when the
  pattern matches, the whole text otherwise. \<open>parse\<close> is \<^verbatim>\<open>JSON.parse\<close>.
\<close>

definition extractJson :: "(string \<Rightarrow> thrown + json) \<Rightarrow> string \<Rightarrow> thrown + json" where
  "extractJson parse content =
     (case matchFirst jsonRegex content of
        Some jsonMatch \<Rightarrow> parse jsonMatch
      | None \<Rightarrow> parse content)"

text \<open>
  The span the specification describes: from the first \<^verbatim>\<open>{\<close> of the text to the last
  \<^verbatim>\<open>}\<close> after it, both included; none when no \<^verbatim>\<open>}\<close> follows the first \<^verbatim>\<open>{\<close>.
\<close>

definition braceSpan :: "string \<Rightarrow> string option" where
  "braceSpan s =
     (case dropWhile (\<lambda>c. c \<noteq> CHR ''{'') s of
        [] \<Rightarrow> None
      | b # t \<Rightarrow>
          if CHR ''}'' \<in> set t
          then Some (b # rev (dropWhile (\<lambda>c. c \<noteq> CHR ''}'') (rev t)))
          else None)"

subsection \<open>Truthiness, property access and \<^verbatim>\<open>+\<close>\<close>

text \<open>JavaScript's truthiness, on a value and on a property read (\<^verbatim>\<open>undefined\<close> is falsy).\<close>

fun truthyValue :: "json \<Rightarrow> bool" where
  "truthyValue JNull = False"
| "truthyValue (JBool b) = b"
| "truthyValue (JNum n) = (\<not> falsyNumber n)"
| "truthyValue (JStr s) = (s \<noteq> [])"
| "truthyValue (JArr es) = True"
| "truthyValue (JObj kv) = True"

fun truthy :: "json option \<Rightarrow> bool" where
  "truthy None = False"
| "truthy (Some v) = truthyValue v"

text \<open>\<^verbatim>\<open>Array.isArray(x)\<close> and \<^verbatim>\<open>typeof x === 'number'\<close> on a property read.\<close>

fun isArray :: "json option \<Rightarrow> bool" where
  "isArray (Some (JArr es)) = True"
| "isArray v = False"

fun isNumber :: "json option \<Rightarrow> bool" where
  "isNumber (Some (JNum n)) = True"
| "isNumber v = False"

text \<open>\<^verbatim>\<open>x || d\<close> for a property read \<open>x\<close>.\<close>

fun orElse :: "json option \<Rightarrow> json \<Rightarrow> json" where
  "orElse None d = d"
| "orElse (Some v) d = (if truthyValue v then v else d)"

text \<open>\<^verbatim>\<open>m || d\<close> for a message \<open>m\<close>: an absent or empty message gives \<open>d\<close>.\<close>

fun orText :: "string option \<Rightarrow> string \<Rightarrow> string" where
  "orText None d = d"
| "orText (Some m) d = (if m = [] then d else m)"

text \<open>
  Reading a property of a parsed value: \<^verbatim>\<open>null\<close> throws, an object looks the key up among
  its own properties, anything else gives \<^verbatim>\<open>undefined\<close>. The keys this program reads
  (\<^verbatim>\<open>items\<close>, \<^verbatim>\<open>totalEstimatedValue\<close>, \<^verbatim>\<open>estimatedWaste\<close>, \<^verbatim>\<open>estimatedValue\<close>,
  \<^verbatim>\<open>models\<close>, \<^verbatim>\<open>name\<close>) are inherited by no array, string, number, boolean or plain object.
\<close>

fun getProp :: "json \<Rightarrow> string \<Rightarrow> thrown + json option" where
  "getProp JNull k = Inl (TypeError (ReadOfNull k))"
| "getProp (JObj kv) k = Inr (map_of kv k)"
| "getProp v k = Inr None"

text \<open>
  The variable \<^verbatim>\<open>analysis\<close>: the parsed value together with the named properties the
  function has assigned to it when it is an array (an object keeps its assigned
  properties in its own list). \<open>writeProp\<close> is an assignment in strict mode (the file is an
  ES module): on a number, string or boolean it throws.
\<close>

type_synonym analysis = "json \<times> (string \<times> json) list"

fun readProp :: "analysis \<Rightarrow> string \<Rightarrow> thrown + json option" where
  "readProp (JArr es, ex) k = Inr (map_of ex k)"
| "readProp (v, ex) k = getProp v k"

fun writeProp :: "analysis \<Rightarrow> string \<Rightarrow> json \<Rightarrow> thrown + analysis" where
  "writeProp (JObj kv, ex) k v = Inr (JObj (AList.update k v kv), ex)"
| "writeProp (JArr es, ex) k v = Inr (JArr es, AList.update k v ex)"
| "writeProp (JNull, ex) k v = Inl (TypeError (WriteOfNull k))"
| "writeProp (p, ex) k v = Inl (TypeError (CreateOn p k))"

text \<open>
  String conversion as \<^verbatim>\<open>+\<close> performs it. \<open>ns\<close> is the runtime's number-to-string
  conversion. An array is joined with commas, \<^verbatim>\<open>null\<close> elements giving the empty string;
  a plain object is \<^verbatim>\<open>[object Object]\<close>, unless it has an own property \<^verbatim>\<open>toString\<close>, which
  (being JSON data) is not callable, so that the conversion throws.
\<close>

fun toStr :: "(number \<Rightarrow> string) \<Rightarrow> json \<Rightarrow> thrown + string"
  and joinElems :: "(number \<Rightarrow> string) \<Rightarrow> json list \<Rightarrow> thrown + string" where
  "toStr ns JNull = Inr ''null''"
| "toStr ns (JBool b) = Inr (if b then ''true'' else ''false'')"
| "toStr ns (JNum n) = Inr (ns n)"
| "toStr ns (JStr s) = Inr s"
| "toStr ns (JObj kv) =
     (if map_of kv ''toString'' = None then Inr ''[object Object]''
      else Inl (TypeError NoPrimitive))"
| "toStr ns (JArr es) = joinElems ns es"
| "joinElems ns [] = Inr []"
| "joinElems ns (e # es) =
     (case (if e = JNull then Inr [] else toStr ns e) of
        Inl err \<Rightarrow> Inl err
      | Inr s \<Rightarrow>
          (if es = [] then Inr s
           else case joinElems ns es of
                  Inl err \<Rightarrow> Inl err
                | Inr r \<Rightarrow> Inr (s @ '','' @ r)))"

fun toPrimitive :: "(number \<Rightarrow> string) \<Rightarrow> json \<Rightarrow> thrown + json" where
  "toPrimitive ns (JArr es) = map_sum id JStr (toStr ns (JArr es))"
| "toPrimitive ns (JObj kv) = map_sum id JStr (toStr ns (JObj kv))"
| "toPrimitive ns p = Inr p"

fun toNumber :: "json \<Rightarrow> number" where
  "toNumber (JNum n) = n"
| "toNumber (JBool b) = (if b then Finite 1 else Finite 0)"
| "toNumber v = Finite 0"

fun isString :: "json \<Rightarrow> bool" where
  "isString (JStr s) = True"
| "isString v = False"

text \<open>
  \<^verbatim>\<open>a + b\<close>: both operands are made primitive, left first; if either is a string the
  result is the concatenation of their string forms, otherwise the engine's sum \<open>add\<close> of
  their numeric forms (\<open>toNumber\<close> is applied to numbers, booleans and \<^verbatim>\<open>null\<close> only).
\<close>

definition js_add ::
  "(number \<Rightarrow> number \<Rightarrow> number) \<Rightarrow> (number \<Rightarrow> string) \<Rightarrow> json \<Rightarrow> json \<Rightarrow> thrown + json" where
  "js_add add ns a b =
     (case toPrimitive ns a of
        Inl err \<Rightarrow> Inl err
      | Inr pa \<Rightarrow>
          (case toPrimitive ns b of
             Inl err \<Rightarrow> Inl err
           | Inr pb \<Rightarrow>
               if isString pa \<or> isString pb
               then (case toStr ns pa of
                       Inl err \<Rightarrow> Inl err
                     | Inr sa \<Rightarrow>
                         (case toStr ns pb of
                            Inl err \<Rightarrow> Inl err
                          | Inr sb \<Rightarrow> Inr (JStr (sa @ sb))))
               else Inr (JNum (add (toNumber pa) (toNumber pb)))))"

subsection \<open>Stage 5: normalisation (lines 159 to 178)\<close>

text \<open>
  The reducer of line 165: \<^verbatim>\<open>(sum, item) => sum + (item.estimatedValue || 0)\<close>, folded from
  the left over the items; \<open>acc\<close> is the source's \<^verbatim>\<open>sum\<close>.
\<close>

fun sumItems ::
  "(number \<Rightarrow> number \<Rightarrow> number) \<Rightarrow> (number \<Rightarrow> string) \<Rightarrow> json \<Rightarrow> json list
     \<Rightarrow> thrown + json" where
  "sumItems add ns acc [] = Inr acc"
| "sumItems add ns acc (item # rest) =
     (case getProp item ''estimatedValue'' of
        Inl err \<Rightarrow> Inl err
      | Inr v \<Rightarrow>
          (case js_add add ns acc (orElse v (JNum (Finite 0))) of
             Inl err \<Rightarrow> Inl err
           | Inr acc' \<Rightarrow> sumItems add ns acc' rest))"

text \<open>\<^verbatim>\<open>analysis.items.reduce(..., 0)\<close> on what \<^verbatim>\<open>analysis.items\<close> reads.\<close>

fun reduceItems ::
  "(number \<Rightarrow> number \<Rightarrow> number) \<Rightarrow> (number \<Rightarrow> string) \<Rightarrow> json option \<Rightarrow> thrown + json" where
  "reduceItems add ns (Some (JArr es)) = sumItems add ns (JNum (Finite 0)) es"
| "reduceItems add ns None = Inl (TypeError (ReadOfUndefined ''reduce''))"
| "reduceItems add ns (Some JNull) = Inl (TypeError (ReadOfNull ''reduce''))"
| "reduceItems add ns (Some v) = Inl (TypeError (NotAFunction ''analysis.items.reduce''))"

fun bindE :: "thrown + 'a \<Rightarrow> ('a \<Rightarrow> thrown + 'b) \<Rightarrow> thrown + 'b" where
  "bindE (Inl err) f = Inl err"
| "bindE (Inr x) f = f x"

definition unknownWaste :: json where
  "unknownWaste = JObj [(''weight'', JStr ''unknown''), (''percentage'', JStr ''unknown'')]"

definition normalize ::
  "(number \<Rightarrow> number \<Rightarrow> number) \<Rightarrow> (number \<Rightarrow> string) \<Rightarrow> json \<Rightarrow> thrown + analysis" where
  "normalize add ns parsed =
     bindE (readProp (parsed, []) ''items'') (\<lambda>items.
     bindE (if \<not> truthy items \<or> \<not> isArray items
            then writeProp (parsed, []) ''items'' (JArr [])
            else Inr (parsed, [])) (\<lambda>a1.
     bindE (readProp a1 ''totalEstimatedValue'') (\<lambda>tev.
     bindE (if \<not> isNumber tev
            then bindE (readProp a1 ''items'') (\<lambda>its.
                 bindE (reduceItems add ns its) (\<lambda>total.
                 writeProp a1 ''totalEstimatedValue'' total))
            else Inr a1) (\<lambda>a2.
     bindE (readProp a2 ''estimatedWaste'') (\<lambda>ew.
     if \<not> truthy ew then writeProp a2 ''estimatedWaste'' unknownWaste else Inr a2)))))"

subsection \<open>The environment and the trace of effects\<close>

text \<open>
  The generation request of lines 101 to 122: the configuration passed to
  \<^verbatim>\<open>getGenerativeModel\<close> and the image part. The prompt is the same fixed text in every
  request and is not a field; \<open>temperature\<close> is the literal \<^verbatim>\<open>0.4\<close> of line 104, as the decimal
  it is written as.
\<close>

record request =
  model :: string
  temperature :: rat
  responseMimeType :: "string option"
  inlineData :: string
  mimeType :: string

text \<open>What \<^verbatim>\<open>fetch\<close> of the model catalog does: it throws, or it answers with a status
  (\<^verbatim>\<open>response.ok\<close>) and a body that \<^verbatim>\<open>response.json()\<close> parses or rejects.\<close>

datatype fetch_result =
    FetchThrows thrown
  | Response bool "thrown + json"

datatype log_arg =
    Text string
  | Names "string list"
  | Message "string option"
  | Thrown thrown

datatype event =
    ReadFile string
  | FetchModels string
  | GenerateContent request
  | ConsoleLog "log_arg list"
  | ConsoleError "log_arg list"

text \<open>
  \<open>readFileSync\<close> gives the base64 text of the file. \<open>generateContent\<close> is one attempt of the
  loop, from \<^verbatim>\<open>getGenerativeModel\<close> to \<^verbatim>\<open>response.text()\<close>: it throws or gives the text;
  its first argument is the position of the attempt, so that two attempts on the same
  request may differ.
\<close>

record env =
  GEMINI_API_KEY :: "string option"
  readFileSync :: "string \<Rightarrow> thrown + string"
  fetch :: "string \<Rightarrow> fetch_result"
  generateContent :: "nat \<Rightarrow> request \<Rightarrow> thrown + string"
  JSON_parse :: "string \<Rightarrow> thrown + json"
  numberAdd :: "number \<Rightarrow> number \<Rightarrow> number"
  numberToString :: "number \<Rightarrow> string"
  typeErrorMessage :: "type_error \<Rightarrow> string"

fun isNetworkCall :: "event \<Rightarrow> bool" where
  "isNetworkCall (FetchModels url) = True"
| "isNetworkCall (GenerateContent req) = True"
| "isNetworkCall e = False"

fun isGeneration :: "event \<Rightarrow> bool" where
  "isGeneration (GenerateContent req) = True"
| "isGeneration e = False"

text \<open>The \<^verbatim>\<open>message\<close> property of a thrown value; \<open>tm\<close> words the engine's type errors.\<close>

fun message :: "(type_error \<Rightarrow> string) \<Rightarrow> thrown \<Rightarrow> string option" where
  "message tm (Error m) = m"
| "message tm (TypeError t) = Some (tm t)"

text \<open>\<^verbatim>\<open>!x\<close> is false: a string that is neither absent nor empty.\<close>

fun truthyText :: "string option \<Rightarrow> bool" where
  "truthyText None = False"
| "truthyText (Some s) = (s \<noteq> [])"

subsection \<open>Stage 1: media type (lines 25 to 27)\<close>

definition mimeTypeOf :: "string \<Rightarrow> string" where
  "mimeTypeOf imagePath =
     (if endsWith (toLowerCase imagePath) ''.png'' then ''image/png''
      else if endsWith (toLowerCase imagePath) ''.jpg''
              \<or> endsWith (toLowerCase imagePath) ''.jpeg'' then ''image/jpeg''
      else ''image/jpeg'')"

subsection \<open>Stage 2: model discovery (lines 56 to 91)\<close>

text \<open>Line 64, the callback of \<^verbatim>\<open>map\<close>: \<^verbatim>\<open>m => m.name.replace('models/', '')\<close>.\<close>

definition modelNameOf :: "json \<Rightarrow> thrown + string" where
  "modelNameOf m =
     (case getProp m ''name'' of
        Inl err \<Rightarrow> Inl err
      | Inr None \<Rightarrow> Inl (TypeError (ReadOfUndefined ''replace''))
      | Inr (Some JNull) \<Rightarrow> Inl (TypeError (ReadOfNull ''replace''))
      | Inr (Some (JStr s)) \<Rightarrow> Inr (replaceFirst ''models/'' [] s)
      | Inr (Some v) \<Rightarrow> Inl (TypeError (NotAFunction ''m.name.replace'')))"

fun mapNames :: "json list \<Rightarrow> thrown + string list" where
  "mapNames [] = Inr []"
| "mapNames (m # ms) =
     (case modelNameOf m of
        Inl err \<Rightarrow> Inl err
      | Inr n \<Rightarrow>
          (case mapNames ms of
             Inl err \<Rightarrow> Inl err
           | Inr ns \<Rightarrow> Inr (n # ns)))"

text \<open>\<^verbatim>\<open>data.models.map(...)\<close> on a truthy \<^verbatim>\<open>data.models\<close>: only an array has \<^verbatim>\<open>map\<close>.\<close>

fun mapModels :: "json option \<Rightarrow> thrown + string list" where
  "mapModels (Some (JArr ms)) = mapNames ms"
| "mapModels v = Inl (TypeError (NotAFunction ''data.models.map''))"

definition catalogUrl :: "string \<Rightarrow> string" where
  "catalogUrl apiKey = ''https://generativelanguage.googleapis.com/v1beta/models?key='' @ apiKey"

text \<open>
  The body of the inner \<^verbatim>\<open>try\<close> of lines 58 to 67: \<open>Inr None\<close> when \<^verbatim>\<open>availableModels\<close> is
  left as it was, \<open>Inr (Some names)\<close> when it is assigned, \<open>Inl\<close> when something throws.
\<close>

definition queryCatalog :: "env \<Rightarrow> string \<Rightarrow> thrown + string list option" where
  "queryCatalog e apiKey =
     (case fetch e (catalogUrl apiKey) of
        FetchThrows err \<Rightarrow> Inl err
      | Response ok body \<Rightarrow>
          if ok
          then bindE body (\<lambda>data.
               bindE (getProp data ''models'') (\<lambda>models.
               if truthy models then map_sum id Some (mapModels models) else Inr None))
          else Inr None)"

text \<open>Lines 57 to 70: \<^verbatim>\<open>availableModels\<close> after the \<^verbatim>\<open>try\<close>/\<^verbatim>\<open>catch\<close>, and what was done.\<close>

definition discoverModels :: "env \<Rightarrow> string \<Rightarrow> string list \<times> event list" where
  "discoverModels e apiKey =
     (case queryCatalog e apiKey of
        Inl err \<Rightarrow>
          ([], [FetchModels (catalogUrl apiKey),
                ConsoleLog [Text ''Could not list models via REST API, will try default names:'',
                            Message (message (typeErrorMessage e) err)]])
      | Inr None \<Rightarrow> ([], [FetchModels (catalogUrl apiKey)])
      | Inr (Some names) \<Rightarrow>
          (names, [FetchModels (catalogUrl apiKey),
                   ConsoleLog [Text ''Available models:'', Names names]]))"

definition defaultModelNames :: "string list" where
  "defaultModelNames =
     [''gemini-pro-vision'', ''gemini-pro'', ''gemini-1.5-pro'', ''gemini-1.5-flash'',
      ''gemini-1.5-flash-001'']"

text \<open>The filter of lines 81 to 83.\<close>

definition isVisionModel :: "string \<Rightarrow> bool" where
  "isVisionModel name =
     ((str_includes name ''pro'' \<or> str_includes name ''flash'')
      \<and> \<not> str_includes name ''embedding'')"

text \<open>Lines 76 to 91: the candidate list \<^verbatim>\<open>modelNames\<close>.\<close>

definition selectModels :: "string list \<Rightarrow> string list \<times> event list" where
  "selectModels availableModels =
     (if length availableModels > 0
      then (let visionModels = filter isVisionModel availableModels;
                modelNames = (if length visionModels > 0 then visionModels
                              else take 3 availableModels)
            in (modelNames, [ConsoleLog [Text ''Using models from API:'', Names modelNames],
                             ConsoleLog [Text ''Trying models:'', Names modelNames]]))
      else (defaultModelNames, [ConsoleLog [Text ''Trying models:'', Names defaultModelNames]]))"

subsection \<open>Stage 3: the fallback loop (lines 93 to 140)\<close>

definition requestFor :: "string \<Rightarrow> string \<Rightarrow> string \<Rightarrow> request" where
  "requestFor modelName base64Image mime =
     \<lparr> model = modelName,
       temperature = 4 / 10,
       responseMimeType =
         (if str_includes modelName ''1.5'' then Some ''application/json'' else None),
       inlineData = base64Image,
       mimeType = mime \<rparr>"

text \<open>
  The \<^verbatim>\<open>for\<close> loop of lines 98 to 135 over the candidates still to try; \<open>i\<close> counts the
  attempts made and \<open>lastError\<close> is the variable of that name. The result is
  \<^verbatim>\<open>modelContent\<close> (\<open>None\<close> for \<^verbatim>\<open>null\<close>), \<^verbatim>\<open>lastError\<close> and the events, in order.
\<close>

fun tryModels ::
  "env \<Rightarrow> string \<Rightarrow> string \<Rightarrow> nat \<Rightarrow> string list \<Rightarrow> thrown option
     \<Rightarrow> string option \<times> thrown option \<times> event list" where
  "tryModels e base64Image mime i [] lastError = (None, lastError, [])"
| "tryModels e base64Image mime i (modelName # rest) lastError =
     (case generateContent e i (requestFor modelName base64Image mime) of
        Inr text \<Rightarrow>
          (Some text, lastError,
           [GenerateContent (requestFor modelName base64Image mime),
            ConsoleLog [Text (''Successfully used model: '' @ modelName)]])
      | Inl err \<Rightarrow>
          (case tryModels e base64Image mime (Suc i) rest (Some err) of
             (modelContent, lastError', evs) \<Rightarrow>
               (modelContent, lastError',
                GenerateContent (requestFor modelName base64Image mime)
                # ConsoleLog [Text (''Model '' @ modelName @ '' failed, trying next...'')]
                # evs)))"

text \<open>\<^verbatim>\<open>lastError?.message\<close>.\<close>

fun lastMessage :: "(type_error \<Rightarrow> string) \<Rightarrow> thrown option \<Rightarrow> string option" where
  "lastMessage tm None = None"
| "lastMessage tm (Some err) = message tm err"

text \<open>The message of line 139.\<close>

definition allFailedMessage :: "string option \<Rightarrow> string list \<Rightarrow> string" where
  "allFailedMessage lastMsg modelNames =
     ''All model attempts failed. Last error: '' @ orText lastMsg ''Unknown error''
     @ ''. Tried models: '' @ join '', '' modelNames"

subsection \<open>Error classification: the outer \<^verbatim>\<open>catch\<close> (lines 179 to 198)\<close>

definition missingKeyMessage :: string where
  "missingKeyMessage = ''GEMINI_API_KEY is not set in your .env file. Please add it.''"

definition parseFailedMessage :: string where
  "parseFailedMessage = ''Failed to parse AI response. The AI did not return valid JSON.''"

definition invalidKeyMessage :: string where
  "invalidKeyMessage =
     ''Invalid Gemini API key. Please check your .env file and ensure GEMINI_API_KEY is set correctly. Get your key at https://aistudio.google.com/app/apikey''"

definition quotaMessage :: string where
  "quotaMessage =
     ''Gemini API quota exceeded. Please check your Google Cloud billing and add credits. Visit https://console.cloud.google.com/ to manage your quota.''"

definition forbiddenMessage :: string where
  "forbiddenMessage =
     ''Gemini API access forbidden. Please check your API key permissions and enable the Generative AI API in Google Cloud Console.''"

definition invalidRequestMessage :: string where
  "invalidRequestMessage =
     ''Invalid request to Gemini API. Please check the image format and try again.''"

definition notFoundMessage :: string where
  "notFoundMessage = ''Image file not found. Please try uploading again.''"

text \<open>\<^verbatim>\<open>error.message?.includes(s)\<close>: falsy when there is no message.\<close>

fun messageIncludes :: "string option \<Rightarrow> string \<Rightarrow> bool" where
  "messageIncludes None s = False"
| "messageIncludes (Some m) s = str_includes m s"

text \<open>
  The \<^verbatim>\<open>if\<close>/\<^verbatim>\<open>else if\<close> chain of lines 183 to 197, on the caught \<open>error\<close>, in the
  source's order. The result is the value the \<^verbatim>\<open>catch\<close> block throws.
\<close>

definition classifyError :: "(type_error \<Rightarrow> string) \<Rightarrow> thrown \<Rightarrow> thrown" where
  "classifyError tm error =
     (let msg = message tm error in
      if messageIncludes msg ''API_KEY'' then Error (Some invalidKeyMessage)
      else if messageIncludes msg ''quota'' \<or> messageIncludes msg ''429''
        then Error (Some quotaMessage)
      else if messageIncludes msg ''403'' \<or> messageIncludes msg ''PERMISSION_DENIED''
        then Error (Some forbiddenMessage)
      else if messageIncludes msg ''400'' \<or> messageIncludes msg ''INVALID_ARGUMENT''
        then Error (Some invalidRequestMessage)
      else if messageIncludes msg ''ENOENT'' then Error (Some notFoundMessage)
      else if messageIncludes msg ''GEMINI_API_KEY is not set'' then error
      else Error (Some (''AI analysis failed: '' @ orText msg ''Unknown error occurred'')))"

subsection \<open>The function\<close>

text \<open>Lines 142 to 178: from the text of the model to the returned value.\<close>

definition parseAndNormalize :: "env \<Rightarrow> string \<Rightarrow> (thrown + analysis) \<times> event list" where
  "parseAndNormalize e content =
     (case extractJson (JSON_parse e) content of
        Inl parseError \<Rightarrow>
          (Inl (Error (Some parseFailedMessage)),
           [ConsoleError [Text ''Error parsing JSON response:'', Text content]])
      | Inr parsed \<Rightarrow> (normalize (numberAdd e) (numberToString e) parsed, []))"

text \<open>Lines 137 to 178: the check of \<^verbatim>\<open>modelContent\<close> after the loop, and what follows.\<close>

fun afterLoop ::
  "env \<Rightarrow> string list \<Rightarrow> string option \<Rightarrow> thrown option \<Rightarrow> (thrown + analysis) \<times> event list" where
  "afterLoop e modelNames (Some content) lastError =
     (if content = []
      then (Inl (Error (Some (allFailedMessage (lastMessage (typeErrorMessage e) lastError)
                                modelNames))), [])
      else parseAndNormalize e content)"
| "afterLoop e modelNames None lastError =
     (Inl (Error (Some (allFailedMessage (lastMessage (typeErrorMessage e) lastError)
                          modelNames))), [])"

text \<open>Lines 16 to 178, the body of the outer \<^verbatim>\<open>try\<close>: the returned value or what it throws.\<close>

definition tryBlock :: "env \<Rightarrow> string \<Rightarrow> (thrown + analysis) \<times> event list" where
  "tryBlock e imagePath =
     (case GEMINI_API_KEY e of
        None \<Rightarrow> (Inl (Error (Some missingKeyMessage)), [])
      | Some apiKey \<Rightarrow>
          if apiKey = [] then (Inl (Error (Some missingKeyMessage)), [])
          else
            (case readFileSync e imagePath of
               Inl err \<Rightarrow> (Inl err, [ReadFile imagePath])
             | Inr base64Image \<Rightarrow>
                 (case discoverModels e apiKey of
                    (availableModels, evs1) \<Rightarrow>
                 (case selectModels availableModels of
                    (modelNames, evs2) \<Rightarrow>
                 (case tryModels e base64Image (mimeTypeOf imagePath) 0 modelNames None of
                    (modelContent, lastError, evs3) \<Rightarrow>
                 (case afterLoop e modelNames modelContent lastError of
                    (result, evs4) \<Rightarrow>
                      (result, ReadFile imagePath # evs1 @ evs2 @ evs3 @ evs4)))))))"

text \<open>
  \<^verbatim>\<open>analyzeFoodWaste\<close>: \<open>Inr\<close> is the value the promise resolves to, \<open>Inl\<close> the error it
  rejects with; the second component is everything the call did, in order.
\<close>

definition analyzeFoodWaste :: "env \<Rightarrow> string \<Rightarrow> (thrown + analysis) \<times> event list" where
  "analyzeFoodWaste e imagePath =
     (case tryBlock e imagePath of
        (Inr result, evs) \<Rightarrow> (Inr result, evs)
      | (Inl error, evs) \<Rightarrow>
          (Inl (classifyError (typeErrorMessage e) error),
           evs @ [ConsoleError [Text ''Error in AI vision analysis:'', Thrown error]]))"

subsection \<open>An engine and an environment for running the function\<close>

text \<open>
  The wording of Node.js (V8) for the type errors above; \<open>ns\<close> prints a number. A
  primitive on which a property cannot be created is quoted in the message.
\<close>

definition quoted :: "string \<Rightarrow> string" where
  "quoted s = CHR 0x27 # s @ [CHR 0x27]"

fun primitiveKind :: "json \<Rightarrow> string" where
  "primitiveKind (JNum n) = ''number''"
| "primitiveKind (JStr s) = ''string''"
| "primitiveKind (JBool b) = ''boolean''"
| "primitiveKind v = ''object''"

fun primitiveText :: "(number \<Rightarrow> string) \<Rightarrow> json \<Rightarrow> string" where
  "primitiveText ns (JNum n) = ns n"
| "primitiveText ns (JStr s) = s"
| "primitiveText ns (JBool b) = (if b then ''true'' else ''false'')"
| "primitiveText ns v = ''null''"

fun v8Message :: "(number \<Rightarrow> string) \<Rightarrow> type_error \<Rightarrow> string" where
  "v8Message ns (ReadOfNull k) =
     ''Cannot read properties of null (reading '' @ quoted k @ '')''"
| "v8Message ns (ReadOfUndefined k) =
     ''Cannot read properties of undefined (reading '' @ quoted k @ '')''"
| "v8Message ns (WriteOfNull k) =
     ''Cannot set properties of null (setting '' @ quoted k @ '')''"
| "v8Message ns (CreateOn v k) =
     ''Cannot create property '' @ quoted k @ '' on '' @ primitiveKind v @ '' ''
     @ quoted (primitiveText ns v)"
| "v8Message ns (NotAFunction f) = f @ '' is not a function''"
| "v8Message ns NoPrimitive = ''Cannot convert object to primitive value''"

text \<open>
  Decimal text of a natural number, and of an integer-valued number. A finite non-integer
  is printed as a fraction, which is not JavaScript's decimal form: no example below
  prints one.
\<close>

fun decimal :: "nat \<Rightarrow> string" where
  "decimal n =
     (if n < 10 then [''0123456789'' ! n]
      else decimal (n div 10) @ [''0123456789'' ! (n mod 10)])"

declare decimal.simps [simp del]

definition showInt :: "int \<Rightarrow> string" where
  "showInt i = (if i < 0 then CHR ''-'' # decimal (nat (- i)) else decimal (nat i))"

definition showRat :: "rat \<Rightarrow> string" where
  "showRat r =
     (case quotient_of r of
        (a, b) \<Rightarrow> if b = 1 then showInt a else showInt a @ ''/'' @ showInt b)"

fun showNumber :: "number \<Rightarrow> string" where
  "showNumber (Finite r) = showRat r"
| "showNumber NegZero = ''0''"
| "showNumber PosInfinity = ''Infinity''"
| "showNumber NegInfinity = ''-Infinity''"
| "showNumber NaN = ''NaN''"

text \<open>
  The addition of the example engine. On the special values it is IEEE addition; the sum
  of two finite numbers is the exact one, as double addition is whenever the exact sum is
  a double, which it is in every example below. Rounding and overflow are not part of
  this example engine; the theorems are about any \<open>numberAdd\<close>.
\<close>

fun exactAdd :: "number \<Rightarrow> number \<Rightarrow> number" where
  "exactAdd NaN b = NaN"
| "exactAdd a NaN = NaN"
| "exactAdd PosInfinity NegInfinity = NaN"
| "exactAdd NegInfinity PosInfinity = NaN"
| "exactAdd PosInfinity b = PosInfinity"
| "exactAdd a PosInfinity = PosInfinity"
| "exactAdd NegInfinity b = NegInfinity"
| "exactAdd a NegInfinity = NegInfinity"
| "exactAdd NegZero b = b"
| "exactAdd a NegZero = a"
| "exactAdd (Finite a) (Finite b) = Finite (a + b)"

text \<open>Texts a model may answer with, and the values \<^verbatim>\<open>JSON.parse\<close> gives for them.\<close>

definition negativeTotalText :: string where
  \<open>negativeTotalText = ''{"totalEstimatedValue": -5}''\<close>

definition mistypedTotalText :: string where
  \<open>mistypedTotalText =
     ''{"totalEstimatedValue": "N/A", "items": [{"estimatedValue": 2.5}, {"estimatedValue": 1.0}]}''\<close>

definition quotaStringText :: string where
  \<open>quotaStringText = ''"quota"''\<close>

definition textValuedItemText :: string where
  \<open>textValuedItemText = ''{"items": [{"estimatedValue": "abc"}]}''\<close>

definition exampleTexts :: "(string \<times> json) list" where
  "exampleTexts =
     [(''{}'', JObj []),
      (negativeTotalText, JObj [(''totalEstimatedValue'', JNum (Finite (- 5)))]),
      (mistypedTotalText,
         JObj [(''totalEstimatedValue'', JStr ''N/A''),
               (''items'', JArr [JObj [(''estimatedValue'', JNum (Finite (5 / 2)))],
                                JObj [(''estimatedValue'', JNum (Finite 1))]])]),
      (textValuedItemText, JObj [(''items'', JArr [JObj [(''estimatedValue'', JStr ''abc'')]])]),
      (quotaStringText, JStr ''quota''),
      (''429'', JNum (Finite 429)),
      (''true'', JBool True)]"

text \<open>
  A \<^verbatim>\<open>JSON.parse\<close> for the examples: it knows the texts above and rejects every other
  text with a syntax error that quotes the text, as Node.js does.
\<close>

definition exampleParse :: "string \<Rightarrow> thrown + json" where
  \<open>exampleParse s =
     (case map_of exampleTexts s of
        Some v \<Rightarrow> Inr v
      | None \<Rightarrow> Inl (Error (Some (''Unexpected token, "'' @ s @ ''" is not valid JSON''))))\<close>

text \<open>
  An environment with the credential set and a readable image; the catalog answer and the
  generation attempts are its arguments.
\<close>

definition exampleEnv :: "fetch_result \<Rightarrow> (nat \<Rightarrow> request \<Rightarrow> thrown + string) \<Rightarrow> env" where
  "exampleEnv catalog gen =
     \<lparr> GEMINI_API_KEY = Some ''test-key'',
       readFileSync = (\<lambda>path. Inr ''iVBORw0KGgo=''),
       fetch = (\<lambda>url. catalog),
       generateContent = gen,
       JSON_parse = exampleParse,
       numberAdd = exactAdd,
       numberToString = showNumber,
       typeErrorMessage = v8Message showNumber \<rparr>"

text \<open>The catalog is unreachable: the candidates are the static list.\<close>

definition offline :: fetch_result where
  "offline = FetchThrows (Error (Some ''fetch failed''))"

text \<open>Every attempt answers with the same text, or fails with the same message.\<close>

definition answering :: "string \<Rightarrow> nat \<Rightarrow> request \<Rightarrow> thrown + string" where
  "answering text i req = Inr text"

definition failing :: "string \<Rightarrow> nat \<Rightarrow> request \<Rightarrow> thrown + string" where
  "failing msg i req = Inl (Error (Some msg))"

text \<open>The first attempt fails, every later one answers with the text.\<close>

definition failingFirst :: "string \<Rightarrow> nat \<Rightarrow> request \<Rightarrow> thrown + string" where
  "failingFirst text i req =
     (if i = 0 then Inl (Error (Some ''[503 Service Unavailable] The model is overloaded''))
      else Inr text)"

text \<open>A catalog answer with three models.\<close>

definition exampleCatalog :: fetch_result where
  "exampleCatalog =
     Response True
       (Inr (JObj [(''models'',
                    JArr [JObj [(''name'', JStr ''models/gemini-1.5-flash'')],
                          JObj [(''name'', JStr ''models/text-embedding-004'')],
                          JObj [(''name'', JStr ''models/gemini-pro'')]])]))"

subsection \<open>Notions used in the statements\<close>

text \<open>The candidate list of a call: discovery followed by selection.\<close>

definition candidates :: "env \<Rightarrow> string \<Rightarrow> string list" where
  "candidates e apiKey = fst (selectModels (fst (discoverModels e apiKey)))"

text \<open>
  The substrings the classification chain looks for, in its order. (The last test of the
  chain, for \<^verbatim>\<open>GEMINI_API_KEY is not set\<close>, looks for a text that contains the first.)
\<close>

definition classifierKeys :: "string list" where
  "classifierKeys =
     [''API_KEY'', ''quota'', ''429'', ''403'', ''PERMISSION_DENIED'', ''400'',
      ''INVALID_ARGUMENT'', ''ENOENT'']"

definition unclassified :: "string \<Rightarrow> bool" where
  "unclassified m = list_all (\<lambda>k. \<not> str_includes m k) classifierKeys"

text \<open>
  The items of the upstream value as the normalisation sees them: the array under
  \<^verbatim>\<open>items\<close> when there is one, no items otherwise.
\<close>

definition upstreamItems :: "json \<Rightarrow> json list" where
  "upstreamItems parsed =
     (case getProp parsed ''items'' of
        Inr (Some (JArr es)) \<Rightarrow> es
      | _ \<Rightarrow> [])"

text \<open>
  An item whose \<^verbatim>\<open>estimatedValue\<close> is a number, or is missing or falsy (so that
  \<^verbatim>\<open>|| 0\<close> replaces it by zero), and the number it then contributes to the sum: its
  \<^verbatim>\<open>estimatedValue\<close> when that is a truthy number, \<^verbatim>\<open>0\<close> otherwise.
\<close>

fun plainValue :: "json option \<Rightarrow> bool" where
  "plainValue None = True"
| "plainValue (Some (JNum n)) = True"
| "plainValue (Some v) = (\<not> truthyValue v)"

definition plainItem :: "json \<Rightarrow> bool" where
  "plainItem item =
     (case getProp item ''estimatedValue'' of
        Inl err \<Rightarrow> False
      | Inr v \<Rightarrow> plainValue v)"

definition valueOrZero :: "json \<Rightarrow> number" where
  "valueOrZero item =
     (case getProp item ''estimatedValue'' of
        Inr (Some (JNum n)) \<Rightarrow> if falsyNumber n then Finite 0 else n
      | _ \<Rightarrow> Finite 0)"

text \<open>A number that is not negative: \<^verbatim>\<open>n >= 0\<close> holds.\<close>

fun nonNegative :: "number \<Rightarrow> bool" where
  "nonNegative (Finite r) = (0 \<le> r)"
| "nonNegative NegZero = True"
| "nonNegative PosInfinity = True"
| "nonNegative n = False"

text \<open>
  The text the fallback loop of a call ends with (\<^verbatim>\<open>modelContent\<close> at line 138), and the
  value parsed from it (\<^verbatim>\<open>analysis\<close> at line 158), when the call gets that far.
\<close>

definition modelContent :: "env \<Rightarrow> string \<Rightarrow> string option" where
  "modelContent e imagePath =
     (case GEMINI_API_KEY e of
        None \<Rightarrow> None
      | Some apiKey \<Rightarrow>
          if apiKey = [] then None
          else (case readFileSync e imagePath of
                  Inl err \<Rightarrow> None
                | Inr base64Image \<Rightarrow>
                    fst (tryModels e base64Image (mimeTypeOf imagePath) 0
                           (candidates e apiKey) None)))"

definition parsedReply :: "env \<Rightarrow> string \<Rightarrow> json option" where
  "parsedReply e imagePath =
     (case modelContent e imagePath of
        None \<Rightarrow> None
      | Some content \<Rightarrow>
          if content = [] then None
          else (case extractJson (JSON_parse e) content of
                  Inl err \<Rightarrow> None
                | Inr parsed \<Rightarrow> Some parsed))"


text \<open>
  A parsed value that is no object and no array, and the type error the normalisation
  runs into on it: the read of \<^verbatim>\<open>items\<close> on \<^verbatim>\<open>null\<close>, the assignment to \<^verbatim>\<open>items\<close> on a
  number, string or boolean.
\<close>

fun isPrimitive :: "json \<Rightarrow> bool" where
  "isPrimitive (JArr es) = False"
| "isPrimitive (JObj kv) = False"
| "isPrimitive v = True"

definition primitiveFailure :: "json \<Rightarrow> type_error" where
  "primitiveFailure v = (if v = JNull then ReadOfNull ''items'' else CreateOn v ''items'')"

section \<open>Properties\<close>

subsection \<open>The extraction stage\<close>

lemma matchHere_lit:
  "matchHere [Lit c] s = (case s of [] \<Rightarrow> None | x # xs \<Rightarrow> if x = c then Some [x] else None)"
  by (cases s) auto

lemma matchHere_star_lit:
  "matchHere [AnyStar, Lit c] s =
     (if c \<in> set s then Some (rev (dropWhile (\<lambda>x. x \<noteq> c) (rev s))) else None)"
proof (induction s)
  case Nil
  show ?case by simp
next
  case (Cons x xs)
  show ?case
  proof (cases "c \<in> set xs")
    case True
    then have "dropWhile (\<lambda>x. x \<noteq> c) (rev xs @ [x]) = dropWhile (\<lambda>x. x \<noteq> c) (rev xs) @ [x]"
      by (simp add: dropWhile_append)
    with True Cons show ?thesis by simp
  next
    case False
    show ?thesis
    proof (cases "x = c")
      case True
      have "dropWhile (\<lambda>y. y \<noteq> c) (rev xs @ [c]) = [c]"
        using False by (simp add: dropWhile_append)
      with True False Cons show ?thesis by (simp add: matchHere_lit)
    next
      case neq: False
      with False Cons show ?thesis by (simp add: matchHere_lit)
    qed
  qed
qed

lemma matchHere_jsonRegex:
  "matchHere jsonRegex s =
     (case s of [] \<Rightarrow> None
      | x # xs \<Rightarrow> if x = CHR ''{'' \<and> CHR ''}'' \<in> set xs
                  then Some (x # rev (dropWhile (\<lambda>c. c \<noteq> CHR ''}'') (rev xs))) else None)"
  by (cases s) (simp_all add: jsonRegex_def matchHere_star_lit)

lemma braceSpan_no_close: "CHR ''}'' \<notin> set s \<Longrightarrow> braceSpan s = None"
proof -
  assume a: "CHR ''}'' \<notin> set s"
  have "set (dropWhile (\<lambda>c. c \<noteq> CHR ''{'') s) \<subseteq> set s"
    by (rule set_dropWhileD[THEN subsetI])
  with a show ?thesis
    by (auto simp: braceSpan_def split: list.splits)
qed

lemma braceSpan_Cons:
  "braceSpan (x # xs) =
     (if x = CHR ''{'' then
        (if CHR ''}'' \<in> set xs
         then Some (x # rev (dropWhile (\<lambda>c. c \<noteq> CHR ''}'') (rev xs))) else None)
      else braceSpan xs)"
  by (simp add: braceSpan_def)

text \<open>The regular expression matches exactly the span from the first \<^verbatim>\<open>{\<close> to the last \<^verbatim>\<open>}\<close>.\<close>

lemma matchFirst_braceSpan: "matchFirst jsonRegex s = braceSpan s"
proof (induction s)
  case Nil
  show ?case by (simp add: matchHere_jsonRegex braceSpan_def)
next
  case (Cons x xs)
  show ?case
    using Cons by (simp add: matchHere_jsonRegex braceSpan_Cons braceSpan_no_close)
qed

text \<open>Text without \<^verbatim>\<open>{\<close> before, and without \<^verbatim>\<open>}\<close> after, leaves the span as it is.\<close>

lemma braceSpan_wrapped:
  assumes "braceSpan t = Some m" and "CHR ''{'' \<notin> set pre" and "CHR ''}'' \<notin> set post"
  shows "braceSpan (pre @ t @ post) = Some m"
proof -
  obtain b r where d: "dropWhile (\<lambda>c. c \<noteq> CHR ''{'') t = b # r"
    using assms(1) by (cases "dropWhile (\<lambda>c. c \<noteq> CHR ''{'') t") (simp_all add: braceSpan_def)
  have c: "CHR ''}'' \<in> set r"
    using assms(1) d by (simp add: braceSpan_def split: if_splits)
  have m: "m = b # rev (dropWhile (\<lambda>c. c \<noteq> CHR ''}'') (rev r))"
    using assms(1) d c by (simp add: braceSpan_def)
  have ne: "\<not> (\<forall>x\<in>set t. x \<noteq> CHR ''{'')"
    using d dropWhile_eq_Nil_conv[of "\<lambda>c. c \<noteq> CHR ''{''" t] by simp
  have "dropWhile (\<lambda>c. c \<noteq> CHR ''{'') (t @ post) = b # r @ post"
    using ne d by (auto simp: dropWhile_append)
  then have "dropWhile (\<lambda>c. c \<noteq> CHR ''{'') (pre @ t @ post) = b # r @ post"
    using assms(2) by (simp add: dropWhile_append)
  moreover have "dropWhile (\<lambda>c. c \<noteq> CHR ''}'') (rev post @ rev r)
                 = dropWhile (\<lambda>c. c \<noteq> CHR ''}'') (rev r)"
    using assms(3) by (simp add: dropWhile_append)
  ultimately show ?thesis using c m by (simp add: braceSpan_def)
qed

text \<open>
  Claim C6. A JSON object text starts with \<^verbatim>\<open>{\<close> and ends with \<^verbatim>\<open>}\<close>, up to white space
  around it: it has a span \<open>m\<close> from its first \<^verbatim>\<open>{\<close> to its last \<^verbatim>\<open>}\<close>, and \<^verbatim>\<open>JSON.parse\<close>
  accepts \<open>m\<close> with some value \<open>v\<close>. For every such text \<open>t\<close>, the extraction applied to \<open>t\<close>
  inside a markdown code fence succeeds with \<open>v\<close>, as the extraction applied to \<open>t\<close> alone
  does; so it does inside any wrapping that has no \<^verbatim>\<open>{\<close> before \<open>t\<close> and no \<^verbatim>\<open>}\<close> after it.
  The policy in general: for every text, the span from the first \<^verbatim>\<open>{\<close> to the last
  \<^verbatim>\<open>}\<close> is what is parsed when there is one, and the whole text is parsed only when there
  is none.
\<close>

theorem fenced_extraction:
  assumes "braceSpan t = Some m" and "parse m = Inr v"
  shows "extractJson parse (''```json\<newline>'' @ t @ ''\<newline>```'') = Inr v
         \<and> extractJson parse t = Inr v
         \<and> (\<forall>pre post. CHR ''{'' \<notin> set pre \<and> CHR ''}'' \<notin> set post \<longrightarrow>
                extractJson parse (pre @ t @ post) = Inr v)
         \<and> (\<forall>c. extractJson parse c
                  = (case braceSpan c of Some sp \<Rightarrow> parse sp | None \<Rightarrow> parse c))"
proof -
  have fence: "braceSpan (''```json\<newline>'' @ t @ ''\<newline>```'') = Some m"
    using assms(1) by (rule braceSpan_wrapped) simp_all
  have wrapped: "extractJson parse (pre @ t @ post) = Inr v"
    if "CHR ''{'' \<notin> set pre" and "CHR ''}'' \<notin> set post" for pre post
    using braceSpan_wrapped[OF assms(1) that] assms(2)
    unfolding extractJson_def matchFirst_braceSpan by simp
  have policy: "extractJson parse c
                  = (case braceSpan c of Some sp \<Rightarrow> parse sp | None \<Rightarrow> parse c)" for c
    unfolding extractJson_def matchFirst_braceSpan by (simp split: option.splits)
  have "extractJson parse (''```json\<newline>'' @ t @ ''\<newline>```'') = Inr v"
    using fence assms(2) unfolding extractJson_def matchFirst_braceSpan by simp
  moreover have "extractJson parse t = Inr v"
    using assms unfolding extractJson_def matchFirst_braceSpan by simp
  ultimately show ?thesis using wrapped policy by blast
qed

theorem fenced_extraction_witness:
  "braceSpan negativeTotalText = Some negativeTotalText
   \<and> exampleParse negativeTotalText = Inr (JObj [(''totalEstimatedValue'', JNum (Finite (- 5)))])
   \<and> extractJson exampleParse (''```json\<newline>'' @ negativeTotalText @ ''\<newline>```'')
       = Inr (JObj [(''totalEstimatedValue'', JNum (Finite (- 5)))])
   \<and> extractJson exampleParse negativeTotalText
       = Inr (JObj [(''totalEstimatedValue'', JNum (Finite (- 5)))])"
proof -
  have s: "braceSpan negativeTotalText = Some negativeTotalText"
    by (simp add: braceSpan_def negativeTotalText_def)
  have p: "exampleParse negativeTotalText = Inr (JObj [(''totalEstimatedValue'', JNum (Finite (- 5)))])"
    by (simp add: exampleParse_def exampleTexts_def negativeTotalText_def)
  note f = fenced_extraction [of negativeTotalText negativeTotalText exampleParse
                                 "JObj [(''totalEstimatedValue'', JNum (Finite (- 5)))]", OF s p]
  show ?thesis using s p f by blast
qed

subsection \<open>The shape of a call\<close>

lemma str_includes_sublist: "str_includes s sub = sublist sub s"
  by (induction s) (simp_all add: sublist_Cons_right)

lemma tryBlock_run:
  assumes "GEMINI_API_KEY e = Some k" and "k \<noteq> []" and "readFileSync e p = Inr b"
  shows "tryBlock e p =
           (fst (afterLoop e (candidates e k)
                   (fst (tryModels e b (mimeTypeOf p) 0 (candidates e k) None))
                   (fst (snd (tryModels e b (mimeTypeOf p) 0 (candidates e k) None)))),
            ReadFile p # snd (discoverModels e k) @ snd (selectModels (fst (discoverModels e k)))
              @ snd (snd (tryModels e b (mimeTypeOf p) 0 (candidates e k) None))
              @ snd (afterLoop e (candidates e k)
                   (fst (tryModels e b (mimeTypeOf p) 0 (candidates e k) None))
                   (fst (snd (tryModels e b (mimeTypeOf p) 0 (candidates e k) None)))))"
  using assms by (simp add: tryBlock_def candidates_def split: prod.splits)

lemma tryBlock_no_key:
  "GEMINI_API_KEY e = None \<or> GEMINI_API_KEY e = Some [] \<Longrightarrow>
   tryBlock e p = (Inl (Error (Some missingKeyMessage)), [])"
  by (auto simp: tryBlock_def)

lemma tryBlock_no_file:
  "GEMINI_API_KEY e = Some k \<Longrightarrow> k \<noteq> [] \<Longrightarrow> readFileSync e p = Inl err \<Longrightarrow>
   tryBlock e p = (Inl err, [ReadFile p])"
  by (simp add: tryBlock_def)

lemma analyze_fst:
  "fst (analyzeFoodWaste e p) =
     (case fst (tryBlock e p) of
        Inr r \<Rightarrow> Inr r
      | Inl err \<Rightarrow> Inl (classifyError (typeErrorMessage e) err))"
  by (simp add: analyzeFoodWaste_def split: prod.splits sum.splits)

lemma tryBlock_success:
  assumes "fst (tryBlock e p) = Inr r"
  shows "\<exists>parsed. parsedReply e p = Some parsed \<and> normalize (numberAdd e) (numberToString e) parsed = Inr r"
proof (cases "GEMINI_API_KEY e")
  case None
  with assms show ?thesis by (simp add: tryBlock_no_key)
next
  case (Some k)
  show ?thesis
  proof (cases "k = []")
    case True
    with Some assms show ?thesis by (simp add: tryBlock_no_key)
  next
    case kne: False
    show ?thesis
    proof (cases "readFileSync e p")
      case (Inl err)
      with Some kne assms show ?thesis by (simp add: tryBlock_no_file)
    next
      case (Inr b)
      have run: "fst (tryBlock e p) =
                 fst (afterLoop e (candidates e k)
                   (fst (tryModels e b (mimeTypeOf p) 0 (candidates e k) None))
                   (fst (snd (tryModels e b (mimeTypeOf p) 0 (candidates e k) None))))"
        using tryBlock_run[OF Some kne Inr] by simp
      have mc: "modelContent e p = fst (tryModels e b (mimeTypeOf p) 0 (candidates e k) None)"
        using Some kne Inr by (simp add: modelContent_def)
      show ?thesis
      proof (cases "modelContent e p")
        case None
        with run mc assms show ?thesis by simp
      next
        case (Some content)
        show ?thesis
        proof (cases "content = []")
          case True
          with Some run mc assms show ?thesis by simp
        next
          case cne: False
          from Some run mc assms cne
          have pn: "fst (parseAndNormalize e content) = Inr r" by simp
          then obtain parsed where ex: "extractJson (JSON_parse e) content = Inr parsed"
            and n: "normalize (numberAdd e) (numberToString e) parsed = Inr r"
            by (auto simp: parseAndNormalize_def split: sum.splits)
          from Some cne ex have "parsedReply e p = Some parsed"
            by (simp add: parsedReply_def)
          with n show ?thesis by blast
        qed
      qed
    qed
  qed
qed

lemma analyze_success:
  assumes "fst (analyzeFoodWaste e p) = Inr r"
  shows "\<exists>parsed. parsedReply e p = Some parsed \<and> normalize (numberAdd e) (numberToString e) parsed = Inr r"
proof -
  from assms have "fst (tryBlock e p) = Inr r"
    by (simp add: analyze_fst split: sum.splits)
  then show ?thesis by (rule tryBlock_success)
qed

lemma analyze_of_reply:
  assumes "parsedReply e p = Some parsed"
  shows "fst (analyzeFoodWaste e p) =
           (case normalize (numberAdd e) (numberToString e) parsed of
              Inr r \<Rightarrow> Inr r
            | Inl err \<Rightarrow> Inl (classifyError (typeErrorMessage e) err))"
proof -
  from assms obtain content where mc: "modelContent e p = Some content" and cne: "content \<noteq> []"
    and ex: "extractJson (JSON_parse e) content = Inr parsed"
    by (auto simp: parsedReply_def split: option.splits if_splits sum.splits)
  from mc obtain k b where k: "GEMINI_API_KEY e = Some k" "k \<noteq> []" and b: "readFileSync e p = Inr b"
    and t: "fst (tryModels e b (mimeTypeOf p) 0 (candidates e k) None) = Some content"
    by (auto simp: modelContent_def split: option.splits if_splits sum.splits)
  have "fst (tryBlock e p) = fst (parseAndNormalize e content)"
    using tryBlock_run[OF k b] t cne by simp
  also have "\<dots> = normalize (numberAdd e) (numberToString e) parsed"
    using ex by (simp add: parseAndNormalize_def)
  finally show ?thesis by (simp add: analyze_fst)
qed

subsection \<open>The normalisation stage\<close>

lemma isArray_truthy: "isArray v \<Longrightarrow> truthy v"
  by (cases v rule: isArray.cases) simp_all

lemma normalize_JNull: "normalize add ns JNull = Inl (TypeError (ReadOfNull ''items''))"
  by (simp add: normalize_def)

lemma normalize_JBool: "normalize add ns (JBool b) = Inl (TypeError (CreateOn (JBool b) ''items''))"
  by (simp add: normalize_def)

lemma normalize_JNum: "normalize add ns (JNum n) = Inl (TypeError (CreateOn (JNum n) ''items''))"
  by (simp add: normalize_def)

lemma normalize_JStr: "normalize add ns (JStr s) = Inl (TypeError (CreateOn (JStr s) ''items''))"
  by (simp add: normalize_def)

lemma normalize_JArr:
  "normalize add ns (JArr es) =
     Inr (JArr es, [(''items'', JArr []), (''totalEstimatedValue'', JNum (Finite 0)),
                    (''estimatedWaste'', unknownWaste)])"
  by (simp add: normalize_def)

lemma normalize_JObj:
  "normalize add ns (JObj kv) =
     bindE (if isNumber (map_of kv ''totalEstimatedValue'')
            then Inr (if isArray (map_of kv ''items'') then kv
                      else AList.update ''items'' (JArr []) kv)
            else bindE (sumItems add ns (JNum (Finite 0)) (upstreamItems (JObj kv))) (\<lambda>total.
                 Inr (AList.update ''totalEstimatedValue'' total
                        (if isArray (map_of kv ''items'') then kv
                         else AList.update ''items'' (JArr []) kv))))
       (\<lambda>kv2. Inr (JObj (if truthy (map_of kv ''estimatedWaste'') then kv2
                          else AList.update ''estimatedWaste'' unknownWaste kv2), []))"
proof (cases "isArray (map_of kv ''items'')")
  case True
  then obtain es where es: "map_of kv ''items'' = Some (JArr es)"
    by (cases "map_of kv ''items''" rule: isArray.cases) simp_all
  show ?thesis
  proof (cases "isNumber (map_of kv ''totalEstimatedValue'')")
    case n: True
    with es show ?thesis by (simp add: normalize_def)
  next
    case n: False
    show ?thesis
    proof (cases "sumItems add ns (JNum (Finite 0)) es")
      case (Inl err)
      with es n show ?thesis by (simp add: normalize_def upstreamItems_def)
    next
      case (Inr total)
      with es n show ?thesis by (simp add: normalize_def upstreamItems_def update_conv')
    qed
  qed
next
  case False
  then have ne: "\<not> truthy (map_of kv ''items'') \<or> \<not> isArray (map_of kv ''items'')" by simp
  have up: "upstreamItems (JObj kv) = []"
    using False by (cases "map_of kv ''items''" rule: isArray.cases) (simp_all add: upstreamItems_def)
  show ?thesis
  proof (cases "isNumber (map_of kv ''totalEstimatedValue'')")
    case n: True
    with False ne show ?thesis by (simp add: normalize_def update_conv')
  next
    case n: False
    with False ne up show ?thesis by (simp add: normalize_def update_conv')
  qed
qed

lemma js_add_numbers: "js_add add ns (JNum a) (JNum b) = Inr (JNum (add a b))"
  by (simp add: js_add_def)

lemma plainItem_step:
  assumes "plainItem item"
  shows "\<exists>v. getProp item ''estimatedValue'' = Inr v \<and> orElse v (JNum (Finite 0)) = JNum (valueOrZero item)"
proof (cases "getProp item ''estimatedValue''")
  case (Inl err)
  with assms show ?thesis by (simp add: plainItem_def)
next
  case (Inr v)
  with assms have "plainValue v" by (simp add: plainItem_def)
  then have "orElse v (JNum (Finite 0))
               = JNum (case v of Some (JNum n) \<Rightarrow> if falsyNumber n then Finite 0 else n
                       | _ \<Rightarrow> Finite 0)"
    by (cases v rule: plainValue.cases) auto
  with Inr show ?thesis by (simp add: valueOrZero_def)
qed

lemma sumItems_plain:
  "list_all plainItem es \<Longrightarrow>
   sumItems add ns (JNum a) es = Inr (JNum (foldl add a (map valueOrZero es)))"
proof (induction es arbitrary: a)
  case Nil
  show ?case by simp
next
  case (Cons item rest)
  from Cons.prems have p: "plainItem item" and r: "list_all plainItem rest" by simp_all
  from plainItem_step[OF p] obtain v where
    v: "getProp item ''estimatedValue'' = Inr v" "orElse v (JNum (Finite 0)) = JNum (valueOrZero item)"
    by blast
  show ?case using v Cons.IH[OF r] by (simp add: js_add_numbers)
qed

lemma upstreamItems_JArr: "upstreamItems (JArr es) = []"
  by (simp add: upstreamItems_def)

lemma upstreamItems_JObj:
  "upstreamItems (JObj kv) = (case map_of kv ''items'' of Some (JArr es) \<Rightarrow> es | _ \<Rightarrow> [])"
  by (simp add: upstreamItems_def)

lemma normalize_cases:
  assumes "normalize add ns parsed = Inr r"
  obtains (Obj) kv where "parsed = JObj kv" | (Arr) es where "parsed = JArr es"
  using assms
  by (cases parsed) (simp_all add: normalize_JNull normalize_JBool normalize_JNum normalize_JStr)

lemma normalize_JObj_result:
  assumes "normalize add ns (JObj kv) = Inr r"
  obtains kv2 where
    "r = (JObj (if truthy (map_of kv ''estimatedWaste'') then kv2
                else AList.update ''estimatedWaste'' unknownWaste kv2), [])"
    and "isNumber (map_of kv ''totalEstimatedValue'') \<Longrightarrow>
           kv2 = (if isArray (map_of kv ''items'') then kv
                  else AList.update ''items'' (JArr []) kv)"
    and "\<not> isNumber (map_of kv ''totalEstimatedValue'') \<Longrightarrow>
           \<exists>total. sumItems add ns (JNum (Finite 0)) (upstreamItems (JObj kv)) = Inr total
             \<and> kv2 = AList.update ''totalEstimatedValue'' total
                       (if isArray (map_of kv ''items'') then kv
                        else AList.update ''items'' (JArr []) kv)"
proof (cases "isNumber (map_of kv ''totalEstimatedValue'')")
  case True
  from assms True
  have req: "r = (JObj (if truthy (map_of kv ''estimatedWaste'')
                   then (if isArray (map_of kv ''items'') then kv
                         else AList.update ''items'' (JArr []) kv)
                   else AList.update ''estimatedWaste'' unknownWaste
                          (if isArray (map_of kv ''items'') then kv
                           else AList.update ''items'' (JArr []) kv)), [])"
    by (simp add: normalize_JObj)
  show ?thesis by (rule that[OF req]) (use True in simp_all)
next
  case False
  show ?thesis
  proof (cases "sumItems add ns (JNum (Finite 0)) (upstreamItems (JObj kv))")
    case (Inl err)
    with False assms show ?thesis by (simp add: normalize_JObj)
  next
    case (Inr total)
    from assms False Inr
    have req: "r = (JObj (if truthy (map_of kv ''estimatedWaste'')
                     then AList.update ''totalEstimatedValue'' total
                            (if isArray (map_of kv ''items'') then kv
                             else AList.update ''items'' (JArr []) kv)
                     else AList.update ''estimatedWaste'' unknownWaste
                            (AList.update ''totalEstimatedValue'' total
                               (if isArray (map_of kv ''items'') then kv
                                else AList.update ''items'' (JArr []) kv))), [])"
      by (simp add: normalize_JObj)
    show ?thesis by (rule that[OF req]) (use False Inr in simp_all)
  qed
qed

lemma isArray_items:
  "map_of (if isArray (map_of kv ''items'') then kv else AList.update ''items'' (JArr []) kv) ''items''
   = Some (JArr (upstreamItems (JObj kv)))"
  by (cases "map_of kv ''items''" rule: isArray.cases)
     (simp_all add: upstreamItems_JObj update_conv')

lemma normalize_items:
  assumes "normalize add ns parsed = Inr r"
  shows "readProp r ''items'' = Inr (Some (JArr (upstreamItems parsed)))"
  using assms
proof (cases rule: normalize_cases)
  case (Arr es)
  with assms show ?thesis by (auto simp: normalize_JArr upstreamItems_JArr)
next
  case (Obj kv)
  from assms[unfolded Obj] show ?thesis
  proof (cases rule: normalize_JObj_result)
    case (1 kv2)
    show ?thesis
    proof (cases "isNumber (map_of kv ''totalEstimatedValue'')")
      case True
      with 1 Obj isArray_items[of kv] show ?thesis by (simp add: update_conv')
    next
      case False
      with 1 obtain total where
        "kv2 = AList.update ''totalEstimatedValue'' total
                 (if isArray (map_of kv ''items'') then kv else AList.update ''items'' (JArr []) kv)"
        by blast
      with 1(1) Obj isArray_items[of kv] show ?thesis by (simp add: update_conv')
    qed
  qed
qed

lemma normalize_other:
  assumes "normalize add ns parsed = Inr r"
    and "k \<noteq> ''items''" and "k \<noteq> ''totalEstimatedValue''" and "k \<noteq> ''estimatedWaste''"
  shows "readProp r k = readProp (parsed, []) k"
  using assms(1)
proof (cases rule: normalize_cases)
  case (Arr es)
  with assms show ?thesis by (auto simp: normalize_JArr)
next
  case (Obj kv)
  from assms(1)[unfolded Obj] show ?thesis
  proof (cases rule: normalize_JObj_result)
    case (1 kv2)
    show ?thesis
    proof (cases "isNumber (map_of kv ''totalEstimatedValue'')")
      case True
      with 1 Obj assms(2-) show ?thesis by (simp add: update_conv')
    next
      case False
      with 1 obtain total where
        "kv2 = AList.update ''totalEstimatedValue'' total
                 (if isArray (map_of kv ''items'') then kv else AList.update ''items'' (JArr []) kv)"
        by blast
      with 1(1) Obj assms(2-) show ?thesis by (simp add: update_conv')
    qed
  qed
qed

lemma normalize_waste:
  assumes "normalize add ns parsed = Inr r"
  shows "\<exists>up. readProp (parsed, []) ''estimatedWaste'' = Inr up
           \<and> readProp r ''estimatedWaste'' = Inr (Some (orElse up unknownWaste))"
  using assms
proof (cases rule: normalize_cases)
  case (Arr es)
  with assms show ?thesis by (auto simp: normalize_JArr)
next
  case (Obj kv)
  have oe: "truthy v \<Longrightarrow> v = Some (orElse v unknownWaste)" for v
    by (cases v) simp_all
  have on: "\<not> truthy v \<Longrightarrow> orElse v unknownWaste = unknownWaste" for v
    by (cases v) simp_all
  from assms[unfolded Obj] show ?thesis
  proof (cases rule: normalize_JObj_result)
    case (1 kv2)
    have kv2: "map_of kv2 ''estimatedWaste'' = map_of kv ''estimatedWaste''"
    proof (cases "isNumber (map_of kv ''totalEstimatedValue'')")
      case True
      with 1 show ?thesis by (simp add: update_conv')
    next
      case False
      with 1 obtain total where
        "kv2 = AList.update ''totalEstimatedValue'' total
                 (if isArray (map_of kv ''items'') then kv else AList.update ''items'' (JArr []) kv)"
        by blast
      then show ?thesis by (simp add: update_conv')
    qed
    show ?thesis
    proof (cases "truthy (map_of kv ''estimatedWaste'')")
      case True
      with 1(1) Obj kv2 oe[OF True] show ?thesis by simp
    next
      case False
      with 1(1) Obj on[OF False] show ?thesis by (simp add: update_conv')
    qed
  qed
qed

lemma normalize_total_kept:
  assumes "normalize add ns parsed = Inr r"
    and "readProp (parsed, []) ''totalEstimatedValue'' = Inr (Some (JNum n))"
  shows "readProp r ''totalEstimatedValue'' = Inr (Some (JNum n))"
  using assms(1)
proof (cases rule: normalize_cases)
  case (Arr es)
  with assms show ?thesis by simp
next
  case (Obj kv)
  with assms(2) have n: "map_of kv ''totalEstimatedValue'' = Some (JNum n)" by simp
  from assms(1)[unfolded Obj] show ?thesis
  proof (cases rule: normalize_JObj_result)
    case (1 kv2)
    with n Obj show ?thesis by (simp add: update_conv')
  qed
qed

lemma normalize_total_computed:
  assumes "normalize add ns parsed = Inr r"
    and "readProp (parsed, []) ''totalEstimatedValue'' = Inr up" and "\<not> isNumber up"
  shows "\<exists>total. sumItems add ns (JNum (Finite 0)) (upstreamItems parsed) = Inr total
           \<and> readProp r ''totalEstimatedValue'' = Inr (Some total)"
  using assms(1)
proof (cases rule: normalize_cases)
  case (Arr es)
  with assms show ?thesis by (auto simp: normalize_JArr upstreamItems_JArr)
next
  case (Obj kv)
  with assms(2,3) have n: "\<not> isNumber (map_of kv ''totalEstimatedValue'')" by simp
  from assms(1)[unfolded Obj] show ?thesis
  proof (cases rule: normalize_JObj_result)
    case (1 kv2)
    with n obtain total where t: "sumItems add ns (JNum (Finite 0)) (upstreamItems (JObj kv)) = Inr total"
      and kv2: "kv2 = AList.update ''totalEstimatedValue'' total
                 (if isArray (map_of kv ''items'') then kv else AList.update ''items'' (JArr []) kv)"
      by blast
    with 1(1) Obj show ?thesis by (simp add: update_conv')
  qed
qed

lemma readProp_upstream:
  assumes "normalize add ns parsed = Inr r"
  shows "\<exists>up. readProp (parsed, []) k = Inr up"
  using assms by (cases rule: normalize_cases) simp_all

subsection \<open>The classification chain\<close>

lemma includes_API_KEY:
  assumes "str_includes m ''GEMINI_API_KEY is not set''"
  shows "str_includes m ''API_KEY''"
proof -
  have "str_includes ''GEMINI_API_KEY is not set'' ''API_KEY''" by simp
  then have "sublist ''API_KEY'' ''GEMINI_API_KEY is not set''"
    by (simp only: str_includes_sublist)
  moreover from assms have "sublist ''GEMINI_API_KEY is not set'' m"
    by (simp only: str_includes_sublist)
  ultimately have "sublist ''API_KEY'' m" by (rule sublist_order.order.trans)
  then show ?thesis by (simp only: str_includes_sublist)
qed

lemma classifyError_generic:
  assumes "message tm err = Some m" and "unclassified m"
  shows "classifyError tm err = Error (Some (''AI analysis failed: '' @ orText (Some m) ''Unknown error occurred''))"
proof -
  from assms(2) have k: "\<not> str_includes m ''API_KEY''" "\<not> str_includes m ''quota''"
    "\<not> str_includes m ''429''" "\<not> str_includes m ''403''" "\<not> str_includes m ''PERMISSION_DENIED''"
    "\<not> str_includes m ''400''" "\<not> str_includes m ''INVALID_ARGUMENT''" "\<not> str_includes m ''ENOENT''"
    by (simp_all add: unclassified_def classifierKeys_def)
  from k(1) have "\<not> str_includes m ''GEMINI_API_KEY is not set''"
    using includes_API_KEY by blast
  with k assms(1) show ?thesis
    by (simp add: classifyError_def Let_def)
qed

lemma classifyError_quota:
  assumes "message tm err = Some m" and "\<not> str_includes m ''API_KEY''"
    and "str_includes m ''quota'' \<or> str_includes m ''429''"
  shows "classifyError tm err = Error (Some quotaMessage)"
  using assms by (simp add: classifyError_def Let_def)

lemma classifyError_api_key:
  assumes "message tm err = Some m" and "str_includes m ''API_KEY''"
  shows "classifyError tm err = Error (Some invalidKeyMessage)"
  using assms by (simp add: classifyError_def Let_def)

lemma normalize_primitive:
  "isPrimitive v \<Longrightarrow> normalize add ns v = Inl (TypeError (primitiveFailure v))"
  by (cases v)
     (simp_all add: primitiveFailure_def normalize_JNull normalize_JBool normalize_JNum normalize_JStr)

subsection \<open>Running the examples\<close>

lemma example_candidates: "candidates (exampleEnv offline g) ''test-key'' = defaultModelNames"
  by (simp add: candidates_def discoverModels_def queryCatalog_def exampleEnv_def offline_def
        selectModels_def)

lemma example_content: "modelContent (exampleEnv offline (answering t)) p = Some t"
proof -
  have "GEMINI_API_KEY (exampleEnv offline (answering t)) = Some ''test-key''"
    and "readFileSync (exampleEnv offline (answering t)) p = Inr ''iVBORw0KGgo=''"
    and "generateContent (exampleEnv offline (answering t)) = answering t"
    by (simp_all add: exampleEnv_def)
  then show ?thesis
    by (simp add: modelContent_def example_candidates defaultModelNames_def answering_def)
qed

lemma example_reply:
  assumes "t \<noteq> []" and "extractJson exampleParse t = Inr v"
  shows "parsedReply (exampleEnv offline (answering t)) p = Some v"
proof -
  have "JSON_parse (exampleEnv offline (answering t)) = exampleParse"
    by (simp add: exampleEnv_def)
  with assms show ?thesis by (simp add: parsedReply_def example_content)
qed

lemma extract_negativeTotal:
  "extractJson exampleParse negativeTotalText = Inr (JObj [(''totalEstimatedValue'', JNum (Finite (- 5)))])"
  unfolding extractJson_def matchFirst_braceSpan
  by (simp add: braceSpan_def negativeTotalText_def exampleParse_def exampleTexts_def)

lemma extract_mistypedTotal:
  "extractJson exampleParse mistypedTotalText =
     Inr (JObj [(''totalEstimatedValue'', JStr ''N/A''),
                (''items'', JArr [JObj [(''estimatedValue'', JNum (Finite (5 / 2)))],
                                 JObj [(''estimatedValue'', JNum (Finite 1))]])])"
  unfolding extractJson_def matchFirst_braceSpan
  by (simp add: braceSpan_def mistypedTotalText_def negativeTotalText_def exampleParse_def exampleTexts_def)

lemma extract_textValued:
  "extractJson exampleParse textValuedItemText =
     Inr (JObj [(''items'', JArr [JObj [(''estimatedValue'', JStr ''abc'')]])])"
  unfolding extractJson_def matchFirst_braceSpan
  by (simp add: braceSpan_def textValuedItemText_def mistypedTotalText_def negativeTotalText_def
        exampleParse_def exampleTexts_def)

lemma extract_emptyObject: "extractJson exampleParse ''{}'' = Inr (JObj [])"
  unfolding extractJson_def matchFirst_braceSpan
  by (simp add: braceSpan_def exampleParse_def exampleTexts_def)

lemma extract_quotaString: "extractJson exampleParse quotaStringText = Inr (JStr ''quota'')"
  unfolding extractJson_def matchFirst_braceSpan
  by (simp add: braceSpan_def quotaStringText_def textValuedItemText_def mistypedTotalText_def
        negativeTotalText_def exampleParse_def exampleTexts_def)

lemma extract_true: "extractJson exampleParse ''true'' = Inr (JBool True)"
  unfolding extractJson_def matchFirst_braceSpan
  by (simp add: braceSpan_def quotaStringText_def textValuedItemText_def mistypedTotalText_def
        negativeTotalText_def exampleParse_def exampleTexts_def)

lemma extract_429: "extractJson exampleParse ''429'' = Inr (JNum (Finite 429))"
  unfolding extractJson_def matchFirst_braceSpan
  by (simp add: braceSpan_def quotaStringText_def textValuedItemText_def mistypedTotalText_def
        negativeTotalText_def exampleParse_def exampleTexts_def)

lemma showRat_0: "showRat 0 = ''0''"
  by (simp add: showRat_def showInt_def decimal.simps)

lemma showNumber_0: "showNumber (Finite 0) = ''0''"
  by (simp add: showRat_0)

lemma showRat_429: "showRat 429 = ''429''"
  by (simp add: showRat_def showInt_def decimal.simps)

lemma showNumber_429: "showNumber (Finite 429) = ''429''"
  by (simp add: showRat_429)

lemma example_numbers:
  "numberAdd (exampleEnv catalog g) = exactAdd"
  "numberToString (exampleEnv catalog g) = showNumber"
  by (simp_all add: exampleEnv_def)

subsection \<open>The estimated total\<close>

lemma orElse_truthy: "truthyValue d \<Longrightarrow> truthyValue (orElse v d)"
  by (cases v) simp_all

lemma foldl_nonNegative:
  assumes "\<forall>a b. nonNegative a \<and> nonNegative b \<longrightarrow> nonNegative (add a b)"
  shows "nonNegative a0 \<Longrightarrow> list_all (\<lambda>item. nonNegative (valueOrZero item)) es \<Longrightarrow>
         nonNegative (foldl add a0 (map valueOrZero es))"
proof (induction es arbitrary: a0)
  case Nil
  then show ?case by simp
next
  case (Cons item rest)
  from Cons.prems assms have "nonNegative (add a0 (valueOrZero item))" by simp
  moreover from Cons.prems have "list_all (\<lambda>item. nonNegative (valueOrZero item)) rest" by simp
  ultimately show ?case using Cons.IH by simp
qed

text \<open>
  Claim C1, as the code has it. On every successful return the value was normalised from
  the value parsed from the model's text, and its \<^verbatim>\<open>totalEstimatedValue\<close> is
  \<^item> the upstream \<^verbatim>\<open>totalEstimatedValue\<close>, unchanged, when that is a number (of either sign);
  \<^item> otherwise, when every item's \<^verbatim>\<open>estimatedValue\<close> is a number or is missing or falsy,
    the sum of the items' \<^verbatim>\<open>estimatedValue\<close>s as line 165 computes it: starting from 0, the
    values are added one after the other, from the first item to the last, by the
    engine's (floating-point) addition, a missing or falsy value counting as 0. This sum
    is not negative when no item's value is, for every addition that, like that of IEEE
    doubles, gives a non-negative sum for non-negative numbers.
\<close>

theorem total_estimated_value:
  assumes "fst (analyzeFoodWaste e imagePath) = Inr r"
  shows "\<exists>parsed up. parsedReply e imagePath = Some parsed
           \<and> readProp (parsed, []) ''totalEstimatedValue'' = Inr up
           \<and> (isNumber up \<longrightarrow> readProp r ''totalEstimatedValue'' = Inr up)
           \<and> (\<not> isNumber up \<and> list_all plainItem (upstreamItems parsed) \<longrightarrow>
                readProp r ''totalEstimatedValue''
                  = Inr (Some (JNum (foldl (numberAdd e) (Finite 0)
                                       (map valueOrZero (upstreamItems parsed))))))
           \<and> ((\<forall>a b. nonNegative a \<and> nonNegative b \<longrightarrow> nonNegative (numberAdd e a b))
                \<and> list_all (\<lambda>item. nonNegative (valueOrZero item)) (upstreamItems parsed) \<longrightarrow>
                nonNegative (foldl (numberAdd e) (Finite 0)
                               (map valueOrZero (upstreamItems parsed))))"
proof -
  from analyze_success[OF assms] obtain parsed where
    p: "parsedReply e imagePath = Some parsed"
    and n: "normalize (numberAdd e) (numberToString e) parsed = Inr r"
    by blast
  from readProp_upstream[OF n] obtain up where
    up: "readProp (parsed, []) ''totalEstimatedValue'' = Inr up" by blast
  have kept: "isNumber up \<Longrightarrow> readProp r ''totalEstimatedValue'' = Inr up"
  proof -
    assume "isNumber up"
    then obtain x where "up = Some (JNum x)" by (cases up rule: isNumber.cases) simp_all
    with normalize_total_kept[OF n] up show ?thesis by simp
  qed
  have computed: "readProp r ''totalEstimatedValue''
                    = Inr (Some (JNum (foldl (numberAdd e) (Finite 0)
                                         (map valueOrZero (upstreamItems parsed)))))"
    if "\<not> isNumber up" and "list_all plainItem (upstreamItems parsed)"
  proof -
    from normalize_total_computed[OF n up that(1)] obtain total where
      t: "sumItems (numberAdd e) (numberToString e) (JNum (Finite 0)) (upstreamItems parsed)
            = Inr total"
      and rt: "readProp r ''totalEstimatedValue'' = Inr (Some total)" by blast
    from sumItems_plain[OF that(2), of "numberAdd e" "numberToString e" "Finite 0"] t
    have "total = JNum (foldl (numberAdd e) (Finite 0) (map valueOrZero (upstreamItems parsed)))"
      by simp
    with rt show ?thesis by simp
  qed
  have nonneg: "nonNegative (foldl (numberAdd e) (Finite 0)
                               (map valueOrZero (upstreamItems parsed)))"
    if "\<forall>a b. nonNegative a \<and> nonNegative b \<longrightarrow> nonNegative (numberAdd e a b)"
      and "list_all (\<lambda>item. nonNegative (valueOrZero item)) (upstreamItems parsed)"
    using foldl_nonNegative[OF that(1) _ that(2), of "Finite 0"] by simp
  from p up kept computed nonneg show ?thesis by blast
qed

lemma normalize_mistypedTotal:
  "normalize exactAdd ns (JObj [(''totalEstimatedValue'', JStr ''N/A''),
                (''items'', JArr [JObj [(''estimatedValue'', JNum (Finite (5 / 2)))],
                                 JObj [(''estimatedValue'', JNum (Finite 1))]])])
   = Inr (JObj [(''totalEstimatedValue'', JNum (Finite (7 / 2))),
                (''items'', JArr [JObj [(''estimatedValue'', JNum (Finite (5 / 2)))],
                                 JObj [(''estimatedValue'', JNum (Finite 1))]]),
                (''estimatedWaste'', unknownWaste)], [])"
  by (simp add: normalize_def js_add_def)

text \<open>
  The specification's example: upstream \<^verbatim>\<open>totalEstimatedValue: "N/A"\<close> with items valued 2.5
  and 1.0 gives 3.5.
\<close>

theorem total_estimated_value_witness:
  "fst (analyzeFoodWaste (exampleEnv offline (answering mistypedTotalText)) ''waste.png'')
     = Inr (JObj [(''totalEstimatedValue'', JNum (Finite (7 / 2))),
                  (''items'', JArr [JObj [(''estimatedValue'', JNum (Finite (5 / 2)))],
                                   JObj [(''estimatedValue'', JNum (Finite 1))]]),
                  (''estimatedWaste'', unknownWaste)], [])
   \<and> list_all plainItem [JObj [(''estimatedValue'', JNum (Finite (5 / 2)))],
                          JObj [(''estimatedValue'', JNum (Finite 1))]]
   \<and> readProp (JObj [(''totalEstimatedValue'', JNum (Finite (7 / 2))),
                  (''items'', JArr [JObj [(''estimatedValue'', JNum (Finite (5 / 2)))],
                                   JObj [(''estimatedValue'', JNum (Finite 1))]]),
                  (''estimatedWaste'', unknownWaste)], []) ''totalEstimatedValue''
       = Inr (Some (JNum (exactAdd (exactAdd (Finite 0) (Finite (5 / 2))) (Finite 1))))
   \<and> exactAdd (exactAdd (Finite 0) (Finite (5 / 2))) (Finite 1) = Finite (7 / 2)"
proof -
  let ?E = "exampleEnv offline (answering mistypedTotalText)"
  let ?P = "JObj [(''totalEstimatedValue'', JStr ''N/A''),
                (''items'', JArr [JObj [(''estimatedValue'', JNum (Finite (5 / 2)))],
                                 JObj [(''estimatedValue'', JNum (Finite 1))]])]"
  let ?R = "(JObj [(''totalEstimatedValue'', JNum (Finite (7 / 2))),
                  (''items'', JArr [JObj [(''estimatedValue'', JNum (Finite (5 / 2)))],
                                   JObj [(''estimatedValue'', JNum (Finite 1))]]),
                  (''estimatedWaste'', unknownWaste)], [])"
  have ne: "mistypedTotalText \<noteq> []" by (simp add: mistypedTotalText_def)
  have pr: "parsedReply ?E ''waste.png'' = Some ?P"
    by (rule example_reply[OF ne extract_mistypedTotal])
  have ret: "fst (analyzeFoodWaste ?E ''waste.png'') = Inr ?R"
    by (simp add: analyze_of_reply[OF pr] example_numbers normalize_mistypedTotal)
  have plain: "list_all plainItem (upstreamItems ?P)"
    by (simp add: upstreamItems_JObj plainItem_def)
  from total_estimated_value[OF ret] pr obtain up where
    up: "readProp (?P, []) ''totalEstimatedValue'' = Inr up"
    and c: "\<not> isNumber up \<and> list_all plainItem (upstreamItems ?P) \<longrightarrow>
            readProp ?R ''totalEstimatedValue''
              = Inr (Some (JNum (foldl (numberAdd ?E) (Finite 0)
                                   (map valueOrZero (upstreamItems ?P)))))"
    by auto
  from up have "\<not> isNumber up" by auto
  with c plain have "readProp ?R ''totalEstimatedValue''
              = Inr (Some (JNum (foldl (numberAdd ?E) (Finite 0)
                                   (map valueOrZero (upstreamItems ?P)))))" by blast
  then have t: "readProp ?R ''totalEstimatedValue''
                  = Inr (Some (JNum (exactAdd (exactAdd (Finite 0) (Finite (5 / 2))) (Finite 1))))"
    by (simp add: upstreamItems_JObj valueOrZero_def example_numbers)
  have x: "exactAdd (exactAdd (Finite 0) (Finite (5 / 2))) (Finite 1) = Finite (7 / 2)" by simp
  from ret plain t x show ?thesis by (simp add: upstreamItems_JObj)
qed

lemma normalize_negativeTotal:
  "normalize add ns (JObj [(''totalEstimatedValue'', JNum (Finite (- 5)))])
   = Inr (JObj [(''totalEstimatedValue'', JNum (Finite (- 5))), (''items'', JArr []),
                (''estimatedWaste'', unknownWaste)], [])"
  by (simp add: normalize_def)

lemma normalize_textValued:
  "normalize exactAdd showNumber (JObj [(''items'', JArr [JObj [(''estimatedValue'', JStr ''abc'')]])])
   = Inr (JObj [(''items'', JArr [JObj [(''estimatedValue'', JStr ''abc'')]]),
                (''totalEstimatedValue'', JStr ''0abc''),
                (''estimatedWaste'', unknownWaste)], [])"
  by (simp add: normalize_def js_add_def showRat_0)

text \<open>
  The claim as stated fails: an upstream total of \<^verbatim>\<open>-5\<close> is a number and is returned as it
  is, and an item whose \<^verbatim>\<open>estimatedValue\<close> is the text \<^verbatim>\<open>"abc"\<close> makes the computed total the
  text \<^verbatim>\<open>"0abc"\<close>.
\<close>

theorem total_estimated_value_counterexample:
  "fst (analyzeFoodWaste (exampleEnv offline (answering negativeTotalText)) ''waste.png'')
     = Inr (JObj [(''totalEstimatedValue'', JNum (Finite (- 5))), (''items'', JArr []),
                  (''estimatedWaste'', unknownWaste)], [])
   \<and> \<not> nonNegative (Finite (- 5))
   \<and> fst (analyzeFoodWaste (exampleEnv offline (answering textValuedItemText)) ''waste.png'')
     = Inr (JObj [(''items'', JArr [JObj [(''estimatedValue'', JStr ''abc'')]]),
                  (''totalEstimatedValue'', JStr ''0abc''),
                  (''estimatedWaste'', unknownWaste)], [])"
proof -
  have ne: "negativeTotalText \<noteq> []" "textValuedItemText \<noteq> []"
    by (simp_all add: negativeTotalText_def textValuedItemText_def)
  show ?thesis
    by (simp add: analyze_of_reply[OF example_reply[OF ne(1) extract_negativeTotal]]
          analyze_of_reply[OF example_reply[OF ne(2) extract_textValued]]
          normalize_negativeTotal normalize_textValued example_numbers)
qed

subsection \<open>The invariants of the returned value\<close>

text \<open>
  Claim C2, as the code has it. Every value the function returns was normalised from the
  value parsed from the model's text, and
  \<^item> its \<^verbatim>\<open>items\<close> is an array: the upstream array when there is one, the empty array
    when the upstream value omits \<^verbatim>\<open>items\<close> or gives something else;
  \<^item> its \<^verbatim>\<open>estimatedWaste\<close> is present and truthy: the upstream one when that is truthy,
    and \<^verbatim>\<open>{weight: "unknown", percentage: "unknown"}\<close> otherwise, in particular whenever
    the upstream value lacks it;
  \<^item> its \<^verbatim>\<open>notes\<close> is whatever the upstream value has under \<^verbatim>\<open>notes\<close>, untouched: absent
    when upstream omits it.
\<close>

theorem canonical_invariants:
  assumes "fst (analyzeFoodWaste e imagePath) = Inr r"
  shows "\<exists>parsed waste. parsedReply e imagePath = Some parsed
           \<and> readProp r ''items'' = Inr (Some (JArr (upstreamItems parsed)))
           \<and> readProp (parsed, []) ''estimatedWaste'' = Inr waste
           \<and> readProp r ''estimatedWaste'' = Inr (Some (orElse waste unknownWaste))
           \<and> truthyValue (orElse waste unknownWaste)
           \<and> (waste = None \<longrightarrow> readProp r ''estimatedWaste'' = Inr (Some unknownWaste))
           \<and> readProp r ''notes'' = readProp (parsed, []) ''notes''"
proof -
  from analyze_success[OF assms] obtain parsed where
    p: "parsedReply e imagePath = Some parsed" and n: "normalize (numberAdd e) (numberToString e) parsed = Inr r"
    by blast
  from normalize_waste[OF n] obtain waste where
    w: "readProp (parsed, []) ''estimatedWaste'' = Inr waste"
       "readProp r ''estimatedWaste'' = Inr (Some (orElse waste unknownWaste))" by blast
  have t: "truthyValue (orElse waste unknownWaste)"
    by (rule orElse_truthy) (simp add: unknownWaste_def)
  have d: "waste = None \<longrightarrow> readProp r ''estimatedWaste'' = Inr (Some unknownWaste)"
    using w(2) by simp
  have nt: "readProp r ''notes'' = readProp (parsed, []) ''notes''"
    by (rule normalize_other[OF n]) simp_all
  from p normalize_items[OF n] w t d nt show ?thesis by blast
qed

text \<open>An upstream object without \<^verbatim>\<open>items\<close> and without \<^verbatim>\<open>estimatedWaste\<close>.\<close>

theorem canonical_invariants_witness:
  "fst (analyzeFoodWaste (exampleEnv offline (answering negativeTotalText)) ''waste.png'')
     = Inr (JObj [(''totalEstimatedValue'', JNum (Finite (- 5))), (''items'', JArr []),
                  (''estimatedWaste'', unknownWaste)], [])
   \<and> readProp (JObj [(''totalEstimatedValue'', JNum (Finite (- 5))), (''items'', JArr []),
                  (''estimatedWaste'', unknownWaste)], []) ''items'' = Inr (Some (JArr []))
   \<and> readProp (JObj [(''totalEstimatedValue'', JNum (Finite (- 5))), (''items'', JArr []),
                  (''estimatedWaste'', unknownWaste)], []) ''estimatedWaste''
       = Inr (Some (JObj [(''weight'', JStr ''unknown''), (''percentage'', JStr ''unknown'')]))"
proof -
  let ?E = "exampleEnv offline (answering negativeTotalText)"
  let ?P = "JObj [(''totalEstimatedValue'', JNum (Finite (- 5)))]"
  let ?R = "(JObj [(''totalEstimatedValue'', JNum (Finite (- 5))), (''items'', JArr []),
                  (''estimatedWaste'', unknownWaste)], [])"
  have ne: "negativeTotalText \<noteq> []" by (simp add: negativeTotalText_def)
  have pr: "parsedReply ?E ''waste.png'' = Some ?P"
    by (rule example_reply[OF ne extract_negativeTotal])
  have ret: "fst (analyzeFoodWaste ?E ''waste.png'') = Inr ?R"
    by (simp add: analyze_of_reply[OF pr] normalize_negativeTotal)
  from canonical_invariants[OF ret] pr obtain waste where
    i: "readProp ?R ''items'' = Inr (Some (JArr (upstreamItems ?P)))"
    and w: "readProp (?P, []) ''estimatedWaste'' = Inr waste"
    and d: "waste = None \<longrightarrow> readProp ?R ''estimatedWaste'' = Inr (Some unknownWaste)"
    by auto
  from w have "waste = None" by simp
  with d have "readProp ?R ''estimatedWaste'' = Inr (Some unknownWaste)" by blast
  with i ret show ?thesis by (simp add: upstreamItems_JObj unknownWaste_def)
qed

lemma normalize_emptyObject:
  "normalize add ns (JObj [])
   = Inr (JObj [(''items'', JArr []), (''totalEstimatedValue'', JNum (Finite 0)),
                (''estimatedWaste'', unknownWaste)], [])"
  by (simp add: normalize_def)

text \<open>
  The claim as stated fails on \<^verbatim>\<open>notes\<close>: for the upstream object \<^verbatim>\<open>{}\<close> the returned value
  has no \<^verbatim>\<open>notes\<close> at all, so it is not a string.
\<close>

theorem canonical_invariants_counterexample:
  "fst (analyzeFoodWaste (exampleEnv offline (answering ''{}'')) ''waste.png'')
     = Inr (JObj [(''items'', JArr []), (''totalEstimatedValue'', JNum (Finite 0)),
                  (''estimatedWaste'', unknownWaste)], [])
   \<and> readProp (JObj [(''items'', JArr []), (''totalEstimatedValue'', JNum (Finite 0)),
                     (''estimatedWaste'', unknownWaste)], []) ''notes'' = Inr None"
proof -
  have ne: "''{}'' \<noteq> []" by simp
  show ?thesis
    by (simp add: analyze_of_reply[OF example_reply[OF ne extract_emptyObject]]
          normalize_emptyObject)
qed

subsection \<open>A reply that is no object\<close>

lemma classifyError_not_parse_failure:
  assumes "m \<noteq> parseFailedMessage" and "tm t = m"
  shows "classifyError tm (TypeError t) \<noteq> Error (Some (''AI analysis failed: '' @ parseFailedMessage))"
proof -
  have g: "orText (Some m) ''Unknown error occurred'' \<noteq> parseFailedMessage"
    using assms(1) by (simp add: parseFailedMessage_def)
  show ?thesis
    using assms(2) g
    by (simp add: classifyError_def Let_def invalidKeyMessage_def quotaMessage_def
          forbiddenMessage_def invalidRequestMessage_def notFoundMessage_def)
qed

lemma v8Message_primitiveFailure:
  "v8Message ns (primitiveFailure v) \<noteq> parseFailedMessage"
  by (simp add: primitiveFailure_def parseFailedMessage_def)

text \<open>
  Claim C10, as the code has it. If the text of the model parses to a value that is no
  object and no array, the function does not return: the normalisation throws a type
  error (reading \<^verbatim>\<open>items\<close> of \<^verbatim>\<open>null\<close>, or creating \<^verbatim>\<open>items\<close> on a number, string or
  boolean), and the error raised is the classification of that type error by its message.
  It is the generic analysis failure, message kept, when the message contains none of the
  substrings the classification looks for; with the wording of Node.js it is never the
  parse failure of the extraction stage.
\<close>

theorem primitive_reply_fails:
  assumes "parsedReply e imagePath = Some parsed" and "isPrimitive parsed"
  shows "fst (analyzeFoodWaste e imagePath)
           = Inl (classifyError (typeErrorMessage e) (TypeError (primitiveFailure parsed)))
         \<and> (unclassified (typeErrorMessage e (primitiveFailure parsed)) \<longrightarrow>
              fst (analyzeFoodWaste e imagePath)
                = Inl (Error (Some (''AI analysis failed: ''
                         @ orText (Some (typeErrorMessage e (primitiveFailure parsed)))
                             ''Unknown error occurred''))))
         \<and> (\<forall>ns. typeErrorMessage e = v8Message ns \<longrightarrow>
              fst (analyzeFoodWaste e imagePath)
                \<noteq> Inl (Error (Some (''AI analysis failed: '' @ parseFailedMessage))))"
proof -
  have f: "fst (analyzeFoodWaste e imagePath)
           = Inl (classifyError (typeErrorMessage e) (TypeError (primitiveFailure parsed)))"
    by (simp add: analyze_of_reply[OF assms(1)] normalize_primitive[OF assms(2)])
  have g: "unclassified (typeErrorMessage e (primitiveFailure parsed)) \<Longrightarrow>
           classifyError (typeErrorMessage e) (TypeError (primitiveFailure parsed))
             = Error (Some (''AI analysis failed: ''
                         @ orText (Some (typeErrorMessage e (primitiveFailure parsed)))
                             ''Unknown error occurred''))"
    by (rule classifyError_generic) simp_all
  have h: "classifyError (typeErrorMessage e) (TypeError (primitiveFailure parsed))
             \<noteq> Error (Some (''AI analysis failed: '' @ parseFailedMessage))"
    if "typeErrorMessage e = v8Message ns" for ns
    by (rule classifyError_not_parse_failure[OF v8Message_primitiveFailure[of ns parsed]])
       (simp add: that)
  from f g h show ?thesis by simp
qed

lemma unclassified_true_message:
  "unclassified (v8Message showNumber (CreateOn (JBool True) ''items''))"
  by (simp add: unclassified_def classifierKeys_def quoted_def)

text \<open>The model answers \<^verbatim>\<open>true\<close>.\<close>

theorem primitive_reply_fails_witness:
  "parsedReply (exampleEnv offline (answering ''true'')) ''waste.png'' = Some (JBool True)
   \<and> isPrimitive (JBool True)
   \<and> unclassified (v8Message showNumber (CreateOn (JBool True) ''items''))
   \<and> fst (analyzeFoodWaste (exampleEnv offline (answering ''true'')) ''waste.png'')
       = Inl (Error (Some (''AI analysis failed: Cannot create property ''
                @ quoted ''items'' @ '' on boolean '' @ quoted ''true'')))"
proof -
  let ?E = "exampleEnv offline (answering ''true'')"
  have ne: "''true'' \<noteq> []" by simp
  have pr: "parsedReply ?E ''waste.png'' = Some (JBool True)"
    by (rule example_reply[OF ne extract_true])
  have p: "isPrimitive (JBool True)" by simp
  have tm: "typeErrorMessage ?E = v8Message showNumber" by (simp add: exampleEnv_def)
  have pf: "primitiveFailure (JBool True) = CreateOn (JBool True) ''items''"
    by (simp add: primitiveFailure_def)
  note t = primitive_reply_fails[OF pr p, unfolded tm pf]
  from t unclassified_true_message
  have "fst (analyzeFoodWaste ?E ''waste.png'')
          = Inl (Error (Some (''AI analysis failed: ''
               @ orText (Some (v8Message showNumber (CreateOn (JBool True) ''items'')))
                   ''Unknown error occurred'')))"
    by blast
  then show ?thesis using pr p unclassified_true_message by (simp add: quoted_def)
qed

text \<open>
  The claim as stated fails: Node.js quotes the primitive in the message of the type
  error, so the answers \<^verbatim>\<open>"quota"\<close> and \<^verbatim>\<open>429\<close> are classified as an exceeded quota, which
  is not the generic failure.
\<close>

theorem primitive_reply_fails_counterexample:
  "fst (analyzeFoodWaste (exampleEnv offline (answering quotaStringText)) ''waste.png'')
     = Inl (Error (Some quotaMessage))
   \<and> fst (analyzeFoodWaste (exampleEnv offline (answering ''429'')) ''waste.png'')
     = Inl (Error (Some quotaMessage))
   \<and> \<not> prefix ''AI analysis failed: '' quotaMessage"
proof -
  have ne: "quotaStringText \<noteq> []" "''429'' \<noteq> []" by (simp_all add: quotaStringText_def)
  have tm: "typeErrorMessage (exampleEnv offline g) = v8Message showNumber" for g
    by (simp add: exampleEnv_def)
  have a: "classifyError (v8Message showNumber) (TypeError (CreateOn (JStr ''quota'') ''items''))
             = Error (Some quotaMessage)"
    by (rule classifyError_quota[where m = "v8Message showNumber (CreateOn (JStr ''quota'') ''items'')"])
       (simp_all add: quoted_def)
  have b: "classifyError (v8Message showNumber) (TypeError (CreateOn (JNum (Finite 429)) ''items''))
             = Error (Some quotaMessage)"
    by (rule classifyError_quota[where m = "v8Message showNumber (CreateOn (JNum (Finite 429)) ''items'')"])
       (simp_all add: quoted_def showRat_429)
  show ?thesis
    by (simp add: analyze_of_reply[OF example_reply[OF ne(1) extract_quotaString]]
          analyze_of_reply[OF example_reply[OF ne(2) extract_429]]
          normalize_JStr normalize_JNum tm a b)
       (simp add: quotaMessage_def)
qed

subsection \<open>The fallback loop\<close>

lemma analyze_snd:
  "snd (analyzeFoodWaste e p) =
     snd (tryBlock e p)
     @ (case fst (tryBlock e p) of
          Inl err \<Rightarrow> [ConsoleError [Text ''Error in AI vision analysis:'', Thrown err]]
        | Inr r \<Rightarrow> [])"
  by (simp add: analyzeFoodWaste_def split: prod.splits sum.splits)

lemma discoverModels_events:
  "filter isGeneration (snd (discoverModels e k)) = []"
  by (simp add: discoverModels_def split: sum.splits option.splits)

lemma selectModels_events:
  "filter isGeneration (snd (selectModels ms)) = []"
  by (simp add: selectModels_def Let_def)

lemma afterLoop_events:
  "filter isGeneration (snd (afterLoop e names mc le)) = []"
  by (cases mc) (simp_all add: parseAndNormalize_def split: sum.splits)

lemma analyze_generations:
  assumes "GEMINI_API_KEY e = Some k" and "k \<noteq> []" and "readFileSync e p = Inr b"
  shows "filter isGeneration (snd (analyzeFoodWaste e p))
           = filter isGeneration (snd (snd (tryModels e b (mimeTypeOf p) 0 (candidates e k) None)))"
  by (simp add: analyze_snd tryBlock_run[OF assms] discoverModels_events selectModels_events
        afterLoop_events split: sum.splits)

lemma tryModels_fail_step:
  assumes "generateContent e i (requestFor name b m) = Inl err"
  shows "tryModels e b m i (name # rest) le =
           (fst (tryModels e b m (Suc i) rest (Some err)),
            fst (snd (tryModels e b m (Suc i) rest (Some err))),
            GenerateContent (requestFor name b m)
            # ConsoleLog [Text (''Model '' @ name @ '' failed, trying next...'')]
            # snd (snd (tryModels e b m (Suc i) rest (Some err))))"
  using assms by (simp split: prod.splits)

lemma tryModels_prefix:
  "\<exists>n \<le> length names.
     filter isGeneration (snd (snd (tryModels e b m i names le)))
       = map (\<lambda>name. GenerateContent (requestFor name b m)) (take n names)"
proof (induction names arbitrary: i le)
  case Nil
  show ?case by simp
next
  case (Cons name rest)
  show ?case
  proof (cases "generateContent e i (requestFor name b m)")
    case (Inr reply)
    then have "filter isGeneration (snd (snd (tryModels e b m i (name # rest) le)))
                 = map (\<lambda>name. GenerateContent (requestFor name b m)) (take 1 (name # rest))"
      by simp
    then show ?thesis by (intro exI[where x = 1]) simp
  next
    case (Inl err)
    from Cons.IH[of "Suc i" "Some err"] obtain n where
      n: "n \<le> length rest"
         "filter isGeneration (snd (snd (tryModels e b m (Suc i) rest (Some err))))
            = map (\<lambda>name. GenerateContent (requestFor name b m)) (take n rest)"
      by blast
    from Inl n(2)
    have "filter isGeneration (snd (snd (tryModels e b m i (name # rest) le)))
            = map (\<lambda>name. GenerateContent (requestFor name b m)) (take (Suc n) (name # rest))"
      by (simp add: tryModels_fail_step del: tryModels.simps)
    with n(1) show ?thesis by (intro exI[where x = "Suc n"]) simp
  qed
qed

lemma tryModels_first_success:
  assumes "j < length names"
    and "\<forall>a < j. isl (generateContent e (i + a) (requestFor (names ! a) b m))"
    and "generateContent e (i + j) (requestFor (names ! j) b m) = Inr text"
  shows "fst (tryModels e b m i names le) = Some text
         \<and> filter isGeneration (snd (snd (tryModels e b m i names le)))
             = map (\<lambda>name. GenerateContent (requestFor name b m)) (take (Suc j) names)"
  using assms
proof (induction names arbitrary: i j le)
  case Nil
  then show ?case by simp
next
  case (Cons name rest)
  show ?case
  proof (cases j)
    case 0
    with Cons.prems(3) show ?thesis by simp
  next
    case (Suc j')
    from Cons.prems(2) Suc have "isl (generateContent e (i + 0) (requestFor ((name # rest) ! 0) b m))"
      by blast
    then obtain err where err: "generateContent e i (requestFor name b m) = Inl err"
      by (cases "generateContent e i (requestFor name b m)") simp_all
    have a: "j' < length rest" using Cons.prems(1) Suc by simp
    have b: "\<forall>a < j'. isl (generateContent e (Suc i + a) (requestFor (rest ! a) b m))"
    proof (intro allI impI)
      fix a assume "a < j'"
      then have "Suc a < j" using Suc by simp
      with Cons.prems(2) have "isl (generateContent e (i + Suc a) (requestFor ((name # rest) ! Suc a) b m))"
        by blast
      then show "isl (generateContent e (Suc i + a) (requestFor (rest ! a) b m))" by simp
    qed
    have c: "generateContent e (Suc i + j') (requestFor (rest ! j') b m) = Inr text"
      using Cons.prems(3) Suc by simp
    from Cons.IH[OF a b c, of "Some err"] Suc show ?thesis
      by (simp add: tryModels_fail_step[OF err] del: tryModels.simps)
  qed
qed

lemma tryModels_all_fail:
  assumes "\<forall>a < length names. generateContent e (i + a) (requestFor (names ! a) b m) = Inl (errs (i + a))"
  shows "fst (tryModels e b m i names le) = None
         \<and> fst (snd (tryModels e b m i names le))
             = (if names = [] then le else Some (errs (i + length names - 1)))
         \<and> filter isGeneration (snd (snd (tryModels e b m i names le)))
             = map (\<lambda>name. GenerateContent (requestFor name b m)) names"
  using assms
proof (induction names arbitrary: i le)
  case Nil
  show ?case by simp
next
  case (Cons name rest)
  from Cons.prems have err: "generateContent e i (requestFor name b m) = Inl (errs i)"
    by force
  have r: "\<forall>a < length rest. generateContent e (Suc i + a) (requestFor (rest ! a) b m) = Inl (errs (Suc i + a))"
  proof (intro allI impI)
    fix a assume "a < length rest"
    then have "Suc a < length (name # rest)" by simp
    with Cons.prems have "generateContent e (i + Suc a) (requestFor ((name # rest) ! Suc a) b m) = Inl (errs (i + Suc a))"
      by blast
    then show "generateContent e (Suc i + a) (requestFor (rest ! a) b m) = Inl (errs (Suc i + a))" by simp
  qed
  from Cons.IH[OF r, of "Some (errs i)"] show ?case
    by (cases "rest = []") (simp_all add: tryModels_fail_step[OF err] del: tryModels.simps)
qed

lemma candidates_nonempty: "candidates e k \<noteq> []"
proof (cases "fst (discoverModels e k)")
  case Nil
  then show ?thesis by (simp add: candidates_def selectModels_def defaultModelNames_def)
next
  case (Cons a as)
  then show ?thesis
    by (cases "filter isVisionModel (a # as) = []")
       (simp_all add: candidates_def selectModels_def Let_def)
qed

lemma modelContent_run:
  assumes "GEMINI_API_KEY e = Some k" and "k \<noteq> []" and "readFileSync e p = Inr b"
  shows "modelContent e p = fst (tryModels e b (mimeTypeOf p) 0 (candidates e k) None)"
  using assms by (simp add: modelContent_def)

lemma parsedReply_content:
  assumes "parsedReply e p = Some parsed" and "modelContent e p = Some content"
  shows "extractJson (JSON_parse e) content = Inr parsed"
  using assms by (simp add: parsedReply_def split: if_splits sum.splits)

text \<open>
  Claim C5. With the credential set and the image read, the generation calls of a call
  are a prefix of the candidate list, in its order: at most one per candidate. The loop
  stops at the first attempt that does not throw: if attempt \<open>j\<close> answers and every
  attempt before it throws, exactly the first \<open>j + 1\<close> candidates are called and the
  answer is the text the later stages work on. In particular, if the first candidate
  throws and the second answers, exactly two generation calls are made, however many
  candidates follow, and a returned value is normalised from the second candidate's text.
\<close>

theorem fallback_first_success:
  assumes "GEMINI_API_KEY e = Some k" and "k \<noteq> []" and "readFileSync e p = Inr b"
  shows "(\<exists>n \<le> length (candidates e k).
            filter isGeneration (snd (analyzeFoodWaste e p))
              = map (\<lambda>name. GenerateContent (requestFor name b (mimeTypeOf p)))
                  (take n (candidates e k)))
         \<and> (\<forall>j reply.
               j < length (candidates e k)
               \<and> (\<forall>a < j. isl (generateContent e a
                                  (requestFor (candidates e k ! a) b (mimeTypeOf p))))
               \<and> generateContent e j (requestFor (candidates e k ! j) b (mimeTypeOf p))
                   = Inr reply
               \<longrightarrow> filter isGeneration (snd (analyzeFoodWaste e p))
                     = map (\<lambda>name. GenerateContent (requestFor name b (mimeTypeOf p)))
                         (take (Suc j) (candidates e k))
                   \<and> modelContent e p = Some reply)
         \<and> (\<forall>c1 c2 rest err reply.
               candidates e k = c1 # c2 # rest
               \<and> generateContent e 0 (requestFor c1 b (mimeTypeOf p)) = Inl err
               \<and> generateContent e 1 (requestFor c2 b (mimeTypeOf p)) = Inr reply
               \<longrightarrow> filter isGeneration (snd (analyzeFoodWaste e p))
                     = [GenerateContent (requestFor c1 b (mimeTypeOf p)),
                        GenerateContent (requestFor c2 b (mimeTypeOf p))]
                   \<and> (\<forall>r. fst (analyzeFoodWaste e p) = Inr r \<longrightarrow>
                          (\<exists>parsed. extractJson (JSON_parse e) reply = Inr parsed
                             \<and> normalize (numberAdd e) (numberToString e) parsed = Inr r)))"
proof -
  let ?names = "candidates e k"
  let ?m = "mimeTypeOf p"
  let ?gen = "\<lambda>name. GenerateContent (requestFor name b ?m)"
  note g = analyze_generations[OF assms]
  note mc = modelContent_run[OF assms]
  have first: "filter isGeneration (snd (analyzeFoodWaste e p)) = map ?gen (take (Suc j) ?names)
               \<and> modelContent e p = Some reply"
    if "j < length ?names"
      and "\<forall>a < j. isl (generateContent e a (requestFor (?names ! a) b ?m))"
      and "generateContent e j (requestFor (?names ! j) b ?m) = Inr reply" for j reply
    using tryModels_first_success[of j ?names e 0 b ?m reply None] that g mc by simp
  have prefix: "\<exists>n \<le> length ?names.
            filter isGeneration (snd (analyzeFoodWaste e p)) = map ?gen (take n ?names)"
    using tryModels_prefix[of ?names e b ?m 0 None] g by simp
  have second: "filter isGeneration (snd (analyzeFoodWaste e p)) = [?gen c1, ?gen c2]
                \<and> (\<forall>r. fst (analyzeFoodWaste e p) = Inr r \<longrightarrow>
                       (\<exists>parsed. extractJson (JSON_parse e) reply = Inr parsed
                          \<and> normalize (numberAdd e) (numberToString e) parsed = Inr r))"
    if c: "?names = c1 # c2 # rest"
      and f: "generateContent e 0 (requestFor c1 b ?m) = Inl err"
      and s: "generateContent e 1 (requestFor c2 b ?m) = Inr reply" for c1 c2 rest err reply
  proof -
    have "1 < length ?names" using c by simp
    moreover have "\<forall>a < 1. isl (generateContent e a (requestFor (?names ! a) b ?m))"
      using c f by simp
    moreover have "generateContent e 1 (requestFor (?names ! 1) b ?m) = Inr reply"
      using c s by simp
    ultimately have h: "filter isGeneration (snd (analyzeFoodWaste e p)) = map ?gen (take (Suc 1) ?names)"
      "modelContent e p = Some reply"
      using first[of 1 reply] by simp_all
    from h(1) c have calls: "filter isGeneration (snd (analyzeFoodWaste e p)) = [?gen c1, ?gen c2]"
      by simp
    have res: "\<exists>parsed. extractJson (JSON_parse e) reply = Inr parsed
                 \<and> normalize (numberAdd e) (numberToString e) parsed = Inr r"
      if "fst (analyzeFoodWaste e p) = Inr r" for r
    proof -
      from analyze_success[OF that] obtain parsed where
        pr: "parsedReply e p = Some parsed" and n: "normalize (numberAdd e) (numberToString e) parsed = Inr r"
        by blast
      from parsedReply_content[OF pr h(2)] n show ?thesis by blast
    qed
    from calls res show ?thesis by blast
  qed
  from prefix first second show ?thesis by blast
qed

text \<open>Five candidates, the first attempt fails, the second answers: two calls.\<close>

theorem fallback_first_success_witness:
  "candidates (exampleEnv offline (failingFirst negativeTotalText)) ''test-key''
     = [''gemini-pro-vision'', ''gemini-pro'', ''gemini-1.5-pro'', ''gemini-1.5-flash'',
        ''gemini-1.5-flash-001'']
   \<and> filter isGeneration
        (snd (analyzeFoodWaste (exampleEnv offline (failingFirst negativeTotalText)) ''waste.png''))
       = [GenerateContent (requestFor ''gemini-pro-vision'' ''iVBORw0KGgo='' (mimeTypeOf ''waste.png'')),
          GenerateContent (requestFor ''gemini-pro'' ''iVBORw0KGgo='' (mimeTypeOf ''waste.png''))]
   \<and> fst (analyzeFoodWaste (exampleEnv offline (failingFirst negativeTotalText)) ''waste.png'')
       = Inr (JObj [(''totalEstimatedValue'', JNum (Finite (- 5))), (''items'', JArr []),
                    (''estimatedWaste'', unknownWaste)], [])"
proof -
  let ?E = "exampleEnv offline (failingFirst negativeTotalText)"
  let ?m = "mimeTypeOf ''waste.png''"
  have k: "GEMINI_API_KEY ?E = Some ''test-key''" "''test-key'' \<noteq> []"
    and b: "readFileSync ?E ''waste.png'' = Inr ''iVBORw0KGgo=''"
    and gen: "generateContent ?E = failingFirst negativeTotalText"
    and parse: "JSON_parse ?E = exampleParse"
    by (simp_all add: exampleEnv_def)
  have c: "candidates ?E ''test-key''
             = ''gemini-pro-vision'' # ''gemini-pro''
               # [''gemini-1.5-pro'', ''gemini-1.5-flash'', ''gemini-1.5-flash-001'']"
    by (simp add: example_candidates defaultModelNames_def)
  have f: "generateContent ?E 0 (requestFor ''gemini-pro-vision'' ''iVBORw0KGgo='' ?m)
             = Inl (Error (Some ''[503 Service Unavailable] The model is overloaded''))"
    by (simp add: gen failingFirst_def)
  have s: "generateContent ?E 1 (requestFor ''gemini-pro'' ''iVBORw0KGgo='' ?m) = Inr negativeTotalText"
    by (simp add: gen failingFirst_def)
  note t = fallback_first_success[OF k b]
  from t c f s
  have calls: "filter isGeneration (snd (analyzeFoodWaste ?E ''waste.png''))
                 = [GenerateContent (requestFor ''gemini-pro-vision'' ''iVBORw0KGgo='' ?m),
                    GenerateContent (requestFor ''gemini-pro'' ''iVBORw0KGgo='' ?m)]"
    by blast
  have "1 < length (candidates ?E ''test-key'')" using c by simp
  moreover have "\<forall>a < 1. isl (generateContent ?E a (requestFor (candidates ?E ''test-key'' ! a) ''iVBORw0KGgo='' ?m))"
    using c f by simp
  moreover have "generateContent ?E 1 (requestFor (candidates ?E ''test-key'' ! 1) ''iVBORw0KGgo='' ?m) = Inr negativeTotalText"
    using c s by simp
  ultimately have mc: "modelContent ?E ''waste.png'' = Some negativeTotalText"
    using t by blast
  have ne: "negativeTotalText \<noteq> []" by (simp add: negativeTotalText_def)
  have pr: "parsedReply ?E ''waste.png'' = Some (JObj [(''totalEstimatedValue'', JNum (Finite (- 5)))])"
    using mc ne extract_negativeTotal by (simp add: parsedReply_def parse)
  have ret: "fst (analyzeFoodWaste ?E ''waste.png'')
       = Inr (JObj [(''totalEstimatedValue'', JNum (Finite (- 5))), (''items'', JArr []),
                    (''estimatedWaste'', unknownWaste)], [])"
    by (simp add: analyze_of_reply[OF pr] normalize_negativeTotal)
  from c calls ret show ?thesis by simp
qed

text \<open>
  Claim C3, on the code. With \<^verbatim>\<open>GEMINI_API_KEY\<close> absent or empty the function fails at once
  and makes no network call, as the claim says. But the error it raises is not the
  configuration message re-raised: that message contains \<^verbatim>\<open>API_KEY\<close>, so the first test of
  the classification chain replaces it by the invalid-key message, and the branch of line
  193 that re-raises it is never reached.
\<close>

theorem missing_key_not_reraised:
  assumes "GEMINI_API_KEY e = None \<or> GEMINI_API_KEY e = Some []"
  shows "analyzeFoodWaste e p
           = (Inl (Error (Some invalidKeyMessage)),
              [ConsoleError [Text ''Error in AI vision analysis:'',
                             Thrown (Error (Some missingKeyMessage))]])
         \<and> filter isNetworkCall (snd (analyzeFoodWaste e p)) = []
         \<and> Error (Some invalidKeyMessage) \<noteq> Error (Some missingKeyMessage)"
proof -
  have c: "classifyError tm (Error (Some missingKeyMessage)) = Error (Some invalidKeyMessage)" for tm
    by (rule classifyError_api_key[where m = missingKeyMessage])
       (simp_all add: missingKeyMessage_def)
  have a: "analyzeFoodWaste e p
           = (Inl (Error (Some invalidKeyMessage)),
              [ConsoleError [Text ''Error in AI vision analysis:'',
                             Thrown (Error (Some missingKeyMessage))]])"
    by (simp add: analyzeFoodWaste_def tryBlock_no_key[OF assms] c)
  have d: "invalidKeyMessage \<noteq> missingKeyMessage"
    by (simp add: invalidKeyMessage_def missingKeyMessage_def)
  from a d show ?thesis by simp
qed

text \<open>The variable is not set.\<close>

theorem missing_key_not_reraised_witness:
  "GEMINI_API_KEY ((exampleEnv exampleCatalog (answering ''{}'')) \<lparr>GEMINI_API_KEY := None\<rparr>) = None
   \<and> analyzeFoodWaste ((exampleEnv exampleCatalog (answering ''{}'')) \<lparr>GEMINI_API_KEY := None\<rparr>)
        ''waste.png''
       = (Inl (Error (Some invalidKeyMessage)),
          [ConsoleError [Text ''Error in AI vision analysis:'',
                         Thrown (Error (Some missingKeyMessage))]])"
proof -
  have k: "GEMINI_API_KEY ((exampleEnv exampleCatalog (answering ''{}'')) \<lparr>GEMINI_API_KEY := None\<rparr>)
             = None \<or>
           GEMINI_API_KEY ((exampleEnv exampleCatalog (answering ''{}'')) \<lparr>GEMINI_API_KEY := None\<rparr>)
             = Some []"
    by simp
  from missing_key_not_reraised[OF k, of "''waste.png''"] show ?thesis by simp
qed

subsection \<open>When every candidate fails\<close>

lemma includes_middle: "str_includes (x @ y @ z) y"
  by (simp only: str_includes_sublist sublist_appendI)

lemma includes_trans: "str_includes b a \<Longrightarrow> str_includes c b \<Longrightarrow> str_includes c a"
  unfolding str_includes_sublist by (rule sublist_order.order.trans)

lemma join_includes: "name \<in> set names \<Longrightarrow> str_includes (join sep names) name"
proof (induction sep names rule: join.induct)
  case (1 sep)
  then show ?case by simp
next
  case (2 sep x)
  then show ?case by (simp add: str_includes_sublist)
next
  case (3 sep x y ys)
  show ?case
  proof (cases "name = x")
    case True
    have "str_includes ([] @ x @ (sep @ join sep (y # ys))) x" by (rule includes_middle)
    with True show ?thesis by simp
  next
    case False
    with 3 have "str_includes (join sep (y # ys)) name" by simp
    moreover have "str_includes ((x @ sep) @ join sep (y # ys) @ []) (join sep (y # ys))"
      by (rule includes_middle)
    ultimately have "str_includes ((x @ sep) @ join sep (y # ys) @ []) name"
      by (rule includes_trans)
    then show ?thesis by simp
  qed
qed

lemma allFailed_includes_names:
  "str_includes (allFailedMessage lm names) (join '', '' names)"
proof -
  have "str_includes ((''All model attempts failed. Last error: '' @ orText lm ''Unknown error''
                       @ ''. Tried models: '') @ join '', '' names @ []) (join '', '' names)"
    by (rule includes_middle)
  then show ?thesis by (simp add: allFailedMessage_def)
qed

lemma allFailed_includes_last:
  "str_includes (allFailedMessage lm names) (orText lm ''Unknown error'')"
proof -
  have "str_includes (''All model attempts failed. Last error: '' @ orText lm ''Unknown error''
                       @ (''. Tried models: '' @ join '', '' names)) (orText lm ''Unknown error'')"
    by (rule includes_middle)
  then show ?thesis by (simp add: allFailedMessage_def)
qed

lemma allFailed_nonempty: "allFailedMessage lm names \<noteq> []"
  by (simp add: allFailedMessage_def)

lemma tryBlock_all_fail:
  assumes "GEMINI_API_KEY e = Some k" and "k \<noteq> []" and "readFileSync e p = Inr b"
    and "\<forall>a < length (candidates e k).
           generateContent e a (requestFor (candidates e k ! a) b (mimeTypeOf p)) = Inl (errs a)"
  shows "fst (tryBlock e p)
           = Inl (Error (Some (allFailedMessage
                    (message (typeErrorMessage e) (errs (length (candidates e k) - 1)))
                    (candidates e k))))"
    and "filter isGeneration (snd (analyzeFoodWaste e p))
           = map (\<lambda>name. GenerateContent (requestFor name b (mimeTypeOf p))) (candidates e k)"
proof -
  let ?names = "candidates e k"
  let ?T = "tryModels e b (mimeTypeOf p) 0 ?names None"
  from assms(4)
  have "\<forall>a < length ?names.
          generateContent e (0 + a) (requestFor (?names ! a) b (mimeTypeOf p)) = Inl (errs (0 + a))"
    by simp
  from tryModels_all_fail[OF this, of None]
  have t: "fst ?T = None" "fst (snd ?T) = Some (errs (length ?names - 1))"
    "filter isGeneration (snd (snd ?T))
       = map (\<lambda>name. GenerateContent (requestFor name b (mimeTypeOf p))) ?names"
    using candidates_nonempty[of e k] by simp_all
  show "fst (tryBlock e p)
           = Inl (Error (Some (allFailedMessage
                    (message (typeErrorMessage e) (errs (length ?names - 1))) ?names)))"
    using tryBlock_run[OF assms(1-3)] t(1,2) by simp
  show "filter isGeneration (snd (analyzeFoodWaste e p))
           = map (\<lambda>name. GenerateContent (requestFor name b (mimeTypeOf p))) ?names"
    using analyze_generations[OF assms(1-3)] t(3) by simp
qed

text \<open>
  Claim C4, as the code has it. If every candidate's attempt throws, every candidate is
  called, in order, and the loop's own error (line 139) carries the aggregate message: it
  contains the candidate identifiers joined by \<^verbatim>\<open>", "\<close> in the order of the attempts, hence
  each of them, and the message of the last failure (or \<^verbatim>\<open>Unknown error\<close> when that is
  absent or empty). The error the function finally raises is the classification of this
  aggregate: it keeps the aggregate text, after \<^verbatim>\<open>AI analysis failed: \<close>, when the aggregate
  contains none of the substrings the classification looks for.
\<close>

theorem all_candidates_fail:
  assumes "GEMINI_API_KEY e = Some k" and "k \<noteq> []" and "readFileSync e p = Inr b"
    and "\<forall>a < length (candidates e k).
           generateContent e a (requestFor (candidates e k ! a) b (mimeTypeOf p)) = Inl (errs a)"
  shows "(let names = candidates e k;
              lastMsg = message (typeErrorMessage e) (errs (length names - 1));
              aggregate = allFailedMessage lastMsg names
          in fst (tryBlock e p) = Inl (Error (Some aggregate))
             \<and> filter isGeneration (snd (analyzeFoodWaste e p))
                 = map (\<lambda>name. GenerateContent (requestFor name b (mimeTypeOf p))) names
             \<and> str_includes aggregate (join '', '' names)
             \<and> (\<forall>name \<in> set names. str_includes aggregate name)
             \<and> str_includes aggregate (orText lastMsg ''Unknown error'')
             \<and> fst (analyzeFoodWaste e p)
                 = Inl (classifyError (typeErrorMessage e) (Error (Some aggregate)))
             \<and> (unclassified aggregate \<longrightarrow>
                  fst (analyzeFoodWaste e p)
                    = Inl (Error (Some (''AI analysis failed: '' @ aggregate)))))"
proof -
  let ?names = "candidates e k"
  let ?lm = "message (typeErrorMessage e) (errs (length ?names - 1))"
  let ?agg = "allFailedMessage ?lm ?names"
  note tb = tryBlock_all_fail[OF assms]
  have each: "\<forall>name \<in> set ?names. str_includes ?agg name"
    using join_includes[of _ ?names "'', ''"] allFailed_includes_names[of ?lm ?names]
      includes_trans by blast
  have fin: "fst (analyzeFoodWaste e p) = Inl (classifyError (typeErrorMessage e) (Error (Some ?agg)))"
    by (simp add: analyze_fst tb(1))
  have gen: "classifyError (typeErrorMessage e) (Error (Some ?agg))
               = Error (Some (''AI analysis failed: '' @ ?agg))" if "unclassified ?agg"
    using classifyError_generic[of "typeErrorMessage e" "Error (Some ?agg)" ?agg] that
      allFailed_nonempty[of ?lm ?names] by simp
  from tb each fin gen allFailed_includes_names[of ?lm ?names] allFailed_includes_last[of ?lm ?names]
  show ?thesis unfolding Let_def by simp
qed

lemma example_all_fail:
  "fst (tryBlock (exampleEnv offline (failing msg)) ''waste.png'')
     = Inl (Error (Some (allFailedMessage (Some msg) defaultModelNames)))"
proof -
  let ?E = "exampleEnv offline (failing msg)"
  have k: "GEMINI_API_KEY ?E = Some ''test-key''" "''test-key'' \<noteq> []"
    and b: "readFileSync ?E ''waste.png'' = Inr ''iVBORw0KGgo=''"
    and gen: "generateContent ?E = failing msg"
    by (simp_all add: exampleEnv_def)
  have f: "\<forall>a < length (candidates ?E ''test-key'').
             generateContent ?E a (requestFor (candidates ?E ''test-key'' ! a) ''iVBORw0KGgo=''
                                     (mimeTypeOf ''waste.png''))
               = Inl ((\<lambda>a. Error (Some msg)) a)"
    by (simp add: gen failing_def)
  from tryBlock_all_fail(1)[OF k b f] show ?thesis
    by (simp add: example_candidates)
qed

text \<open>Every candidate of the static list answers 404.\<close>

theorem all_candidates_fail_witness:
  "fst (analyzeFoodWaste (exampleEnv offline (failing ''[404 Not Found] model is not found''))
          ''waste.png'')
     = Inl (Error (Some (''AI analysis failed: All model attempts failed. Last error: [404 Not Found] model is not found. Tried models: gemini-pro-vision, gemini-pro, gemini-1.5-pro, gemini-1.5-flash, gemini-1.5-flash-001'')))
   \<and> filter isGeneration
         (snd (analyzeFoodWaste (exampleEnv offline (failing ''[404 Not Found] model is not found''))
                 ''waste.png''))
       = map (\<lambda>name. GenerateContent (requestFor name ''iVBORw0KGgo='' (mimeTypeOf ''waste.png'')))
           defaultModelNames"
proof -
  let ?msg = "''[404 Not Found] model is not found''"
  let ?E = "exampleEnv offline (failing ?msg)"
  let ?agg = "allFailedMessage (Some ?msg) defaultModelNames"
  have k: "GEMINI_API_KEY ?E = Some ''test-key''" "''test-key'' \<noteq> []"
    and b: "readFileSync ?E ''waste.png'' = Inr ''iVBORw0KGgo=''"
    and gen: "generateContent ?E = failing ?msg"
    by (simp_all add: exampleEnv_def)
  have f: "\<forall>a < length (candidates ?E ''test-key'').
             generateContent ?E a (requestFor (candidates ?E ''test-key'' ! a) ''iVBORw0KGgo=''
                                     (mimeTypeOf ''waste.png''))
               = Inl ((\<lambda>a. Error (Some ?msg)) a)"
    by (simp add: gen failing_def)
  have u: "unclassified ?agg"
    by (simp add: unclassified_def classifierKeys_def allFailedMessage_def defaultModelNames_def)
  note t = all_candidates_fail[OF k b f, unfolded Let_def example_candidates message.simps]
  from t u
  have "fst (analyzeFoodWaste ?E ''waste.png'') = Inl (Error (Some (''AI analysis failed: '' @ ?agg)))
        \<and> filter isGeneration (snd (analyzeFoodWaste ?E ''waste.png''))
       = map (\<lambda>name. GenerateContent (requestFor name ''iVBORw0KGgo='' (mimeTypeOf ''waste.png'')))
           defaultModelNames"
    by blast
  then show ?thesis by (simp add: allFailedMessage_def defaultModelNames_def)
qed

text \<open>
  The claim as stated fails: when the last failure is a 403, the error raised is the
  fixed access-forbidden message, which names no candidate and does not contain the
  message of the failure.
\<close>

theorem all_candidates_fail_counterexample:
  "fst (analyzeFoodWaste
          (exampleEnv offline (failing ''[403 Forbidden] Method doesn't allow unregistered callers''))
          ''waste.png'')
     = Inl (Error (Some forbiddenMessage))
   \<and> \<not> str_includes forbiddenMessage ''gemini-pro-vision''
   \<and> \<not> str_includes forbiddenMessage ''[403 Forbidden]''"
proof -
  let ?msg = "''[403 Forbidden] Method doesn't allow unregistered callers''"
  have c: "classifyError tm (Error (Some (allFailedMessage (Some ?msg) defaultModelNames)))
             = Error (Some forbiddenMessage)" for tm
    by (simp add: classifyError_def Let_def allFailedMessage_def defaultModelNames_def)
  have "fst (analyzeFoodWaste (exampleEnv offline (failing ?msg)) ''waste.png'')
          = Inl (Error (Some forbiddenMessage))"
    by (simp add: analyze_fst example_all_fail c)
  moreover have "\<not> str_includes forbiddenMessage ''gemini-pro-vision''"
    and "\<not> str_includes forbiddenMessage ''[403 Forbidden]''"
    by (simp_all add: forbiddenMessage_def)
  ultimately show ?thesis by blast
qed

subsection \<open>A reply that cannot be parsed\<close>

lemma unclassified_parseFailed: "unclassified parseFailedMessage"
  by (simp add: unclassified_def classifierKeys_def parseFailedMessage_def)

lemma classify_parseFailed:
  "classifyError tm (Error (Some parseFailedMessage))
     = Error (Some (''AI analysis failed: '' @ parseFailedMessage))"
proof -
  have "parseFailedMessage \<noteq> []" by (simp add: parseFailedMessage_def)
  with classifyError_generic[of tm "Error (Some parseFailedMessage)" parseFailedMessage]
    unclassified_parseFailed
  show ?thesis by simp
qed

lemma tryBlock_of_content:
  assumes "modelContent e p = Some content" and "content \<noteq> []"
  shows "fst (tryBlock e p) = fst (parseAndNormalize e content)"
    and "set (snd (parseAndNormalize e content)) \<subseteq> set (snd (tryBlock e p))"
proof -
  from assms(1) obtain k b where k: "GEMINI_API_KEY e = Some k" "k \<noteq> []"
    and b: "readFileSync e p = Inr b"
    and t: "fst (tryModels e b (mimeTypeOf p) 0 (candidates e k) None) = Some content"
    by (auto simp: modelContent_def split: option.splits if_splits sum.splits)
  show "fst (tryBlock e p) = fst (parseAndNormalize e content)"
    using tryBlock_run[OF k b] t assms(2) by simp
  show "set (snd (parseAndNormalize e content)) \<subseteq> set (snd (tryBlock e p))"
    using tryBlock_run[OF k b] t assms(2) by auto
qed

text \<open>
  Claim C7, as the code has it. If the loop ends with a non-empty text that has no
  \<^verbatim>\<open>{\<close>...\<^verbatim>\<open>}\<close> span and that \<^verbatim>\<open>JSON.parse\<close> rejects, the function fails with the parse
  failure: the fixed message of line 156 after \<^verbatim>\<open>AI analysis failed: \<close>, the same for every
  text. The offending text is not part of the error; it is written to the error console
  (line 155).
\<close>

theorem unparseable_reply:
  assumes "modelContent e p = Some content" and "content \<noteq> []"
    and "braceSpan content = None" and "JSON_parse e content = Inl parseError"
  shows "fst (analyzeFoodWaste e p)
           = Inl (Error (Some (''AI analysis failed: '' @ parseFailedMessage)))
         \<and> ConsoleError [Text ''Error parsing JSON response:'', Text content]
             \<in> set (snd (analyzeFoodWaste e p))"
proof -
  have ex: "extractJson (JSON_parse e) content = Inl parseError"
    using assms(3,4) by (simp add: extractJson_def matchFirst_braceSpan)
  then have pn: "parseAndNormalize e content
                   = (Inl (Error (Some parseFailedMessage)),
                      [ConsoleError [Text ''Error parsing JSON response:'', Text content]])"
    by (simp add: parseAndNormalize_def)
  note tb = tryBlock_of_content[OF assms(1,2)]
  have "fst (tryBlock e p) = Inl (Error (Some parseFailedMessage))"
    using tb(1) pn by simp
  then have a: "fst (analyzeFoodWaste e p)
                  = Inl (Error (Some (''AI analysis failed: '' @ parseFailedMessage)))"
    by (simp add: analyze_fst classify_parseFailed)
  have "ConsoleError [Text ''Error parsing JSON response:'', Text content] \<in> set (snd (tryBlock e p))"
    using tb(2) pn by simp
  then have b: "ConsoleError [Text ''Error parsing JSON response:'', Text content]
                  \<in> set (snd (analyzeFoodWaste e p))"
    by (simp add: analyze_snd)
  from a b show ?thesis by blast
qed

lemma example_parse_rejects:
  "map_of exampleTexts s = None \<Longrightarrow>
   exampleParse s = Inl (Error (Some (''Unexpected token, '' @ [CHR 0x22] @ s @ [CHR 0x22] @ '' is not valid JSON'')))"
  by (simp add: exampleParse_def)

text \<open>The model answers in prose.\<close>

theorem unparseable_reply_witness:
  "modelContent (exampleEnv offline (answering ''I see chicken and rice.'')) ''waste.png''
     = Some ''I see chicken and rice.''
   \<and> braceSpan ''I see chicken and rice.'' = None
   \<and> fst (analyzeFoodWaste (exampleEnv offline (answering ''I see chicken and rice.'')) ''waste.png'')
       = Inl (Error (Some
           ''AI analysis failed: Failed to parse AI response. The AI did not return valid JSON.''))
   \<and> ConsoleError [Text ''Error parsing JSON response:'', Text ''I see chicken and rice.'']
       \<in> set (snd (analyzeFoodWaste (exampleEnv offline (answering ''I see chicken and rice.''))
                      ''waste.png''))"
proof -
  let ?c = "''I see chicken and rice.''"
  let ?E = "exampleEnv offline (answering ?c)"
  have mc: "modelContent ?E ''waste.png'' = Some ?c" by (rule example_content)
  have ne: "?c \<noteq> []" by simp
  have sp: "braceSpan ?c = None" by (simp add: braceSpan_def)
  have "map_of exampleTexts ?c = None"
    by (simp add: exampleTexts_def negativeTotalText_def mistypedTotalText_def
          textValuedItemText_def quotaStringText_def)
  then have pe: "JSON_parse ?E ?c
           = Inl (Error (Some (''Unexpected token, '' @ [CHR 0x22] @ ?c @ [CHR 0x22] @ '' is not valid JSON'')))"
    by (simp add: exampleEnv_def example_parse_rejects)
  from unparseable_reply[OF mc ne sp pe] mc sp show ?thesis
    by (simp add: parseFailedMessage_def)
qed

lemma example_empty_reply:
  "fst (tryBlock (exampleEnv offline (answering [])) ''waste.png'')
     = Inl (Error (Some (allFailedMessage None defaultModelNames)))"
proof -
  let ?E = "exampleEnv offline (answering [])"
  have k: "GEMINI_API_KEY ?E = Some ''test-key''" "''test-key'' \<noteq> []"
    and b: "readFileSync ?E ''waste.png'' = Inr ''iVBORw0KGgo=''"
    and gen: "generateContent ?E = answering []"
    by (simp_all add: exampleEnv_def)
  show ?thesis
    using tryBlock_run[OF k b]
    by (simp add: example_candidates defaultModelNames_def gen answering_def)
qed

text \<open>
  The claim as stated fails: for the answer \<^verbatim>\<open>hello\<close> the error raised does not contain
  \<^verbatim>\<open>hello\<close>; and for the empty answer, which has no span and is not valid JSON either, the
  error is not the parse failure but the aggregate of the fallback loop.
\<close>

theorem unparseable_reply_counterexample:
  "fst (analyzeFoodWaste (exampleEnv offline (answering ''hello'')) ''waste.png'')
     = Inl (Error (Some
         ''AI analysis failed: Failed to parse AI response. The AI did not return valid JSON.''))
   \<and> \<not> str_includes
         ''AI analysis failed: Failed to parse AI response. The AI did not return valid JSON.''
         ''hello''
   \<and> fst (analyzeFoodWaste (exampleEnv offline (answering [])) ''waste.png'')
       = Inl (Error (Some
           ''AI analysis failed: All model attempts failed. Last error: Unknown error. Tried models: gemini-pro-vision, gemini-pro, gemini-1.5-pro, gemini-1.5-flash, gemini-1.5-flash-001''))"
proof -
  let ?E = "exampleEnv offline (answering ''hello'')"
  have mc: "modelContent ?E ''waste.png'' = Some ''hello''" by (rule example_content)
  have "map_of exampleTexts ''hello'' = None"
    by (simp add: exampleTexts_def negativeTotalText_def mistypedTotalText_def
          textValuedItemText_def quotaStringText_def)
  then have "extractJson (JSON_parse ?E) ''hello''
           = Inl (Error (Some (''Unexpected token, '' @ [CHR 0x22] @ ''hello'' @ [CHR 0x22] @ '' is not valid JSON'')))"
    unfolding extractJson_def matchFirst_braceSpan
    by (simp add: exampleEnv_def example_parse_rejects braceSpan_def)
  then have "fst (parseAndNormalize ?E ''hello'') = Inl (Error (Some parseFailedMessage))"
    by (simp add: parseAndNormalize_def)
  with tryBlock_of_content(1)[OF mc]
  have "fst (tryBlock ?E ''waste.png'') = Inl (Error (Some parseFailedMessage))" by simp
  then have a: "fst (analyzeFoodWaste ?E ''waste.png'')
     = Inl (Error (Some
         ''AI analysis failed: Failed to parse AI response. The AI did not return valid JSON.''))"
    by (simp add: analyze_fst classify_parseFailed) (simp add: parseFailedMessage_def)
  have b: "\<not> str_includes
         ''AI analysis failed: Failed to parse AI response. The AI did not return valid JSON.''
         ''hello''"
    by simp
  have u: "unclassified (allFailedMessage None defaultModelNames)"
    by (simp add: unclassified_def classifierKeys_def allFailedMessage_def defaultModelNames_def)
  have "classifyError tm (Error (Some (allFailedMessage None defaultModelNames)))
          = Error (Some (''AI analysis failed: '' @ allFailedMessage None defaultModelNames))" for tm
    using classifyError_generic[of tm "Error (Some (allFailedMessage None defaultModelNames))"
            "allFailedMessage None defaultModelNames"] u allFailed_nonempty[of None defaultModelNames]
    by simp
  then have c: "fst (analyzeFoodWaste (exampleEnv offline (answering [])) ''waste.png'')
       = Inl (Error (Some
           ''AI analysis failed: All model attempts failed. Last error: Unknown error. Tried models: gemini-pro-vision, gemini-pro, gemini-1.5-pro, gemini-1.5-flash, gemini-1.5-flash-001''))"
    by (simp add: analyze_fst example_empty_reply) (simp add: allFailedMessage_def defaultModelNames_def)
  from a b c show ?thesis by blast
qed

subsection \<open>Quota errors\<close>

lemma allFailed_keeps:
  assumes "l \<noteq> []" and "str_includes l key"
  shows "str_includes (allFailedMessage (Some l) names) key"
proof -
  have "str_includes (allFailedMessage (Some l) names) (orText (Some l) ''Unknown error'')"
    by (rule allFailed_includes_last)
  with assms(1) have "str_includes (allFailedMessage (Some l) names) l" by simp
  with assms(2) show ?thesis by (rule includes_trans)
qed

lemma afterLoop_failure:
  assumes "fst (afterLoop e names mc le) = Inl err"
  shows "(\<exists>lm. err = Error (Some (allFailedMessage lm names)))
         \<or> err = Error (Some parseFailedMessage)
         \<or> (\<exists>content parsed. mc = Some content \<and> content \<noteq> []
               \<and> extractJson (JSON_parse e) content = Inr parsed
               \<and> normalize (numberAdd e) (numberToString e) parsed = Inl err)"
proof (cases mc)
  case None
  with assms show ?thesis by auto
next
  case (Some content)
  show ?thesis
  proof (cases "content = []")
    case True
    with Some assms show ?thesis by auto
  next
    case False
    with Some assms have pn: "fst (parseAndNormalize e content) = Inl err" by simp
    show ?thesis
    proof (cases "extractJson (JSON_parse e) content")
      case (Inl pe)
      with pn show ?thesis by (simp add: parseAndNormalize_def)
    next
      case (Inr parsed)
      with pn have "normalize (numberAdd e) (numberToString e) parsed = Inl err"
        by (simp add: parseAndNormalize_def)
      with Some False Inr show ?thesis by blast
    qed
  qed
qed

lemma tryBlock_failure:
  assumes "fst (tryBlock e p) = Inl err"
  shows "err = Error (Some missingKeyMessage)
         \<or> readFileSync e p = Inl err
         \<or> (\<exists>k lm. GEMINI_API_KEY e = Some k
               \<and> err = Error (Some (allFailedMessage lm (candidates e k))))
         \<or> err = Error (Some parseFailedMessage)
         \<or> (\<exists>parsed. parsedReply e p = Some parsed
               \<and> normalize (numberAdd e) (numberToString e) parsed = Inl err)"
proof (cases "GEMINI_API_KEY e")
  case None
  with assms show ?thesis by (simp add: tryBlock_no_key)
next
  case (Some k)
  show ?thesis
  proof (cases "k = []")
    case True
    with Some assms show ?thesis by (simp add: tryBlock_no_key)
  next
    case kne: False
    show ?thesis
    proof (cases "readFileSync e p")
      case (Inl ferr)
      with Some kne assms show ?thesis by (simp add: tryBlock_no_file)
    next
      case (Inr b)
      let ?T = "tryModels e b (mimeTypeOf p) 0 (candidates e k) None"
      have "fst (afterLoop e (candidates e k) (fst ?T) (fst (snd ?T))) = Inl err"
        using tryBlock_run[OF Some kne Inr] assms by simp
      from afterLoop_failure[OF this]
      consider (agg) lm where "err = Error (Some (allFailedMessage lm (candidates e k)))"
        | (parse) "err = Error (Some parseFailedMessage)"
        | (norm) content parsed where "fst ?T = Some content" "content \<noteq> []"
            "extractJson (JSON_parse e) content = Inr parsed"
            "normalize (numberAdd e) (numberToString e) parsed = Inl err"
        by blast
      then show ?thesis
      proof cases
        case agg
        with Some show ?thesis by blast
      next
        case parse
        then show ?thesis by blast
      next
        case norm
        have "modelContent e p = Some content"
          using modelContent_run[OF Some kne Inr] norm(1) by simp
        with norm(2,3) have "parsedReply e p = Some parsed" by (simp add: parsedReply_def)
        with norm(4) show ?thesis by blast
      qed
    qed
  qed
qed

text \<open>
  Claim C9, as the code has it. Whatever the body of the function throws, if the message
  of the thrown error contains \<^verbatim>\<open>429\<close> or \<^verbatim>\<open>quota\<close> and does not contain \<^verbatim>\<open>API_KEY\<close>, the
  error finally raised is the quota message. Such an error comes from the file read, from
  the aggregate of the fallback loop or from the normalisation; and the aggregate contains
  every substring of the message of the last failed attempt. (The error of \<^verbatim>\<open>JSON.parse\<close>
  is not among them: the extraction stage replaces it by its own fixed message.)
\<close>

theorem quota_classification:
  assumes "fst (tryBlock e p) = Inl err"
    and "message (typeErrorMessage e) err = Some m"
    and "str_includes m ''429'' \<or> str_includes m ''quota''"
    and "\<not> str_includes m ''API_KEY''"
  shows "fst (analyzeFoodWaste e p) = Inl (Error (Some quotaMessage))
         \<and> (readFileSync e p = Inl err
            \<or> (\<exists>k lm. GEMINI_API_KEY e = Some k
                  \<and> err = Error (Some (allFailedMessage lm (candidates e k))))
            \<or> (\<exists>parsed. parsedReply e p = Some parsed
                  \<and> normalize (numberAdd e) (numberToString e) parsed = Inl err))
         \<and> (\<forall>l names key. l \<noteq> [] \<and> str_includes l key \<longrightarrow>
               str_includes (allFailedMessage (Some l) names) key)"
proof -
  have a: "fst (analyzeFoodWaste e p) = Inl (Error (Some quotaMessage))"
    using assms(1) classifyError_quota[OF assms(2) assms(4)] assms(3)
    by (auto simp: analyze_fst)
  have nk: "err \<noteq> Error (Some missingKeyMessage)"
  proof
    assume "err = Error (Some missingKeyMessage)"
    with assms(2) have "m = missingKeyMessage" by simp
    with assms(4) show False by (simp add: missingKeyMessage_def)
  qed
  have np: "err \<noteq> Error (Some parseFailedMessage)"
  proof
    assume "err = Error (Some parseFailedMessage)"
    with assms(2) have "m = parseFailedMessage" by simp
    with assms(3) show False by (simp add: parseFailedMessage_def)
  qed
  from tryBlock_failure[OF assms(1)] nk np
  have b: "readFileSync e p = Inl err
            \<or> (\<exists>k lm. GEMINI_API_KEY e = Some k
                  \<and> err = Error (Some (allFailedMessage lm (candidates e k))))
            \<or> (\<exists>parsed. parsedReply e p = Some parsed
                  \<and> normalize (numberAdd e) (numberToString e) parsed = Inl err)"
    by blast
  from a b allFailed_keeps show ?thesis by blast
qed

text \<open>Every candidate answers 429.\<close>

theorem quota_classification_witness:
  "fst (tryBlock (exampleEnv offline (failing ''[429 Too Many Requests] Resource has been exhausted''))
          ''waste.png'')
     = Inl (Error (Some (allFailedMessage
              (Some ''[429 Too Many Requests] Resource has been exhausted'') defaultModelNames)))
   \<and> str_includes (allFailedMessage
              (Some ''[429 Too Many Requests] Resource has been exhausted'') defaultModelNames) ''429''
   \<and> \<not> str_includes (allFailedMessage
              (Some ''[429 Too Many Requests] Resource has been exhausted'') defaultModelNames) ''API_KEY''
   \<and> fst (analyzeFoodWaste
            (exampleEnv offline (failing ''[429 Too Many Requests] Resource has been exhausted''))
            ''waste.png'')
       = Inl (Error (Some quotaMessage))"
proof -
  let ?msg = "''[429 Too Many Requests] Resource has been exhausted''"
  let ?E = "exampleEnv offline (failing ?msg)"
  let ?agg = "allFailedMessage (Some ?msg) defaultModelNames"
  have tb: "fst (tryBlock ?E ''waste.png'') = Inl (Error (Some ?agg))" by (rule example_all_fail)
  have m: "message (typeErrorMessage ?E) (Error (Some ?agg)) = Some ?agg" by simp
  have i: "str_includes ?agg ''429'' \<or> str_includes ?agg ''quota''"
    by (simp add: allFailedMessage_def defaultModelNames_def)
  have i': "str_includes ?agg ''429''"
    by (simp add: allFailedMessage_def defaultModelNames_def)
  have n: "\<not> str_includes ?agg ''API_KEY''"
    by (simp add: allFailedMessage_def defaultModelNames_def)
  from quota_classification[OF tb m i n] tb i' n show ?thesis by blast
qed

text \<open>
  The claim as stated fails: a failure whose message contains \<^verbatim>\<open>429\<close> and also \<^verbatim>\<open>API_KEY\<close>
  is raised as the invalid-key message, the first test of the chain; and a syntax error of
  \<^verbatim>\<open>JSON.parse\<close> whose message contains \<^verbatim>\<open>429\<close> is raised as the parse failure.
\<close>

theorem quota_classification_counterexample:
  "str_includes ''[429 Too Many Requests] Quota exceeded for API_KEY AIzaSy'' ''429''
   \<and> fst (analyzeFoodWaste
            (exampleEnv offline (failing ''[429 Too Many Requests] Quota exceeded for API_KEY AIzaSy''))
            ''waste.png'')
       = Inl (Error (Some invalidKeyMessage))
   \<and> invalidKeyMessage \<noteq> quotaMessage
   \<and> exampleParse ''x429'' = Inl (Error (Some (''Unexpected token, '' @ [CHR 0x22] @ ''x429''
                                                 @ [CHR 0x22] @ '' is not valid JSON'')))
   \<and> str_includes (''Unexpected token, '' @ [CHR 0x22] @ ''x429'' @ [CHR 0x22] @ '' is not valid JSON'')
        ''429''
   \<and> fst (analyzeFoodWaste (exampleEnv offline (answering ''x429'')) ''waste.png'')
       = Inl (Error (Some (''AI analysis failed: '' @ parseFailedMessage)))"
proof -
  let ?msg = "''[429 Too Many Requests] Quota exceeded for API_KEY AIzaSy''"
  have a: "str_includes ?msg ''429''" by simp
  have c: "classifyError tm (Error (Some (allFailedMessage (Some ?msg) defaultModelNames)))
             = Error (Some invalidKeyMessage)" for tm
    by (rule classifyError_api_key[where m = "allFailedMessage (Some ?msg) defaultModelNames"])
       (simp_all add: allFailedMessage_def)
  have b: "fst (analyzeFoodWaste (exampleEnv offline (failing ?msg)) ''waste.png'')
             = Inl (Error (Some invalidKeyMessage))"
    by (simp add: analyze_fst example_all_fail c)
  have d: "invalidKeyMessage \<noteq> quotaMessage"
    by (simp add: invalidKeyMessage_def quotaMessage_def)
  have "map_of exampleTexts ''x429'' = None"
    by (simp add: exampleTexts_def negativeTotalText_def mistypedTotalText_def
          textValuedItemText_def quotaStringText_def)
  then have pe: "exampleParse ''x429'' = Inl (Error (Some (''Unexpected token, '' @ [CHR 0x22] @ ''x429''
                                                 @ [CHR 0x22] @ '' is not valid JSON'')))"
    by (rule example_parse_rejects)
  have f: "str_includes (''Unexpected token, '' @ [CHR 0x22] @ ''x429'' @ [CHR 0x22] @ '' is not valid JSON'')
        ''429''"
    by simp
  let ?E = "exampleEnv offline (answering ''x429'')"
  have mc: "modelContent ?E ''waste.png'' = Some ''x429''" by (rule example_content)
  have "extractJson (JSON_parse ?E) ''x429'' = exampleParse ''x429''"
    unfolding extractJson_def matchFirst_braceSpan
    by (simp add: exampleEnv_def braceSpan_def)
  with pe have "fst (parseAndNormalize ?E ''x429'') = Inl (Error (Some parseFailedMessage))"
    by (simp add: parseAndNormalize_def)
  with tryBlock_of_content(1)[OF mc]
  have "fst (tryBlock ?E ''waste.png'') = Inl (Error (Some parseFailedMessage))" by simp
  then have g: "fst (analyzeFoodWaste ?E ''waste.png'')
       = Inl (Error (Some (''AI analysis failed: '' @ parseFailedMessage)))"
    by (simp add: analyze_fst classify_parseFailed)
  from a b d pe f g show ?thesis by blast
qed

subsection \<open>Model discovery\<close>







end
